theory Spec2Isabelle
  imports Complex_Main
begin

section \<open>JavaScript values the program computes with\<close>

text \<open>
  The program is a Bun/TypeScript script (\<^verbatim>\<open>src/index.ts\<close>).

  A string is modelled by the bytes of its UTF-8 encoding, as a \<^typ>\<open>string\<close>. White space is
  the white space of ECMAScript (\<^verbatim>\<open>WhiteSpace\<close> and \<^verbatim>\<open>LineTerminator\<close>), each character in
  that encoding. \<^verbatim>\<open>String.prototype.toLowerCase\<close> follows the engine's Unicode tables, which
  are no part of the repository: it is not defined here but taken as it is, as the field
  \<open>toLowerCase\<close> of the configuration below, and nothing is assumed of it.

  A number is an IEEE 754 double: \<open>NaN\<close>, an infinity, the negative zero, or \<open>Num x\<close> for the
  double whose value is the rational \<open>x\<close> (\<open>Num 0\<close> is the positive zero). Every parsed
  literal and every arithmetic result is rounded to the nearest double, ties to even, by
  \<open>to_double\<close>.
\<close>

datatype js_number = NaN | Num rat | NegZero | PosInf | NegInf

fun js_neg :: "js_number \<Rightarrow> js_number" where
  "js_neg NaN = NaN"
| "js_neg (Num x) = (if x = 0 then NegZero else Num (- x))"
| "js_neg NegZero = Num 0"
| "js_neg PosInf = NegInf"
| "js_neg NegInf = PosInf"

subsection \<open>Rounding to a double\<close>

text \<open>The number of binary digits of a natural number.\<close>

fun bitlen :: "nat \<Rightarrow> nat" where
  "bitlen n = (if n = 0 then 0 else Suc (bitlen (n div 2)))"

declare bitlen.simps [simp del]

definition pow2 :: "int \<Rightarrow> rat" where
  "pow2 e = (if 0 \<le> e then 2 ^ nat e else 1 / 2 ^ nat (- e))"

text \<open>The binary exponent of a positive rational \<open>q\<close>: the \<open>e\<close> with \<open>2\<^sup>e \<le> q < 2\<^sup>e\<^sup>+\<^sup>1\<close>.\<close>

definition binade :: "rat \<Rightarrow> int" where
  "binade q =
     (if 1 \<le> q then int (bitlen (nat \<lfloor>q\<rfloor>)) - 1
      else (let r = 1 / q; j = int (bitlen (nat \<lfloor>r\<rfloor>)) - 1
            in if r = pow2 j then - j else - j - 1))"

definition round_half_even :: "rat \<Rightarrow> int" where
  "round_half_even x =
     (let f = \<lfloor>x\<rfloor>; d = x - of_int f
      in if d < 1 / 2 then f else if 1 / 2 < d then f + 1
         else if even f then f else f + 1)"

text \<open>The double nearest to a rational \<open>q \<ge> 0\<close>: 53 binary digits from the binary exponent
  of \<open>q\<close> down, the exponent not below that of the subnormal doubles, and the infinity from
  \<open>2\<^sup>1\<^sup>0\<^sup>2\<^sup>4\<close> on.\<close>

definition round_pos :: "rat \<Rightarrow> js_number" where
  "round_pos q =
     (if q = 0 then Num 0
      else (let e = max (binade q) (- 1022); u = pow2 (e - 52); n = round_half_even (q / u)
            in if 1023 < e \<or> (e = 1023 \<and> 2 ^ 53 \<le> n) then PosInf else Num (of_int n * u)))"

definition to_double :: "rat \<Rightarrow> js_number" where
  "to_double x = (if x < 0 then js_neg (round_pos (- x)) else round_pos x)"

subsection \<open>Comparison and arithmetic\<close>

fun unsigned_zero :: "js_number \<Rightarrow> js_number" where
  "unsigned_zero NegZero = Num 0"
| "unsigned_zero a = a"

fun lt :: "js_number \<Rightarrow> js_number \<Rightarrow> bool" where
  "lt (Num x) (Num y) = (x < y)"
| "lt (Num x) PosInf = True"
| "lt NegInf (Num y) = True"
| "lt NegInf PosInf = True"
| "lt a b = False"

text \<open>\<^verbatim>\<open>a < b\<close>: false when either side is \<open>NaN\<close>; the two zeros are equal.\<close>

definition js_lt :: "js_number \<Rightarrow> js_number \<Rightarrow> bool" where
  "js_lt a b = lt (unsigned_zero a) (unsigned_zero b)"

definition js_gt :: "js_number \<Rightarrow> js_number \<Rightarrow> bool" where
  "js_gt a b = js_lt b a"

text \<open>\<^verbatim>\<open>a >= b\<close> is false when either side is \<open>NaN\<close>, otherwise the negation of \<^verbatim>\<open>a < b\<close>.\<close>

definition js_ge :: "js_number \<Rightarrow> js_number \<Rightarrow> bool" where
  "js_ge a b = (a \<noteq> NaN \<and> b \<noteq> NaN \<and> \<not> js_lt a b)"

fun is_neg :: "js_number \<Rightarrow> bool" where
  "is_neg (Num x) = (x < 0)"
| "is_neg NegZero = True"
| "is_neg NegInf = True"
| "is_neg a = False"

fun js_abs :: "js_number \<Rightarrow> js_number" where
  "js_abs (Num x) = Num \<bar>x\<bar>"
| "js_abs NegZero = Num 0"
| "js_abs NegInf = PosInf"
| "js_abs a = a"

text \<open>Product and quotient of two numbers that are neither negative nor \<open>NaN\<close>.\<close>

fun mul_abs :: "js_number \<Rightarrow> js_number \<Rightarrow> js_number" where
  "mul_abs (Num x) (Num y) = to_double (x * y)"
| "mul_abs (Num x) PosInf = (if x = 0 then NaN else PosInf)"
| "mul_abs PosInf (Num y) = (if y = 0 then NaN else PosInf)"
| "mul_abs PosInf PosInf = PosInf"
| "mul_abs a b = NaN"

fun div_abs :: "js_number \<Rightarrow> js_number \<Rightarrow> js_number" where
  "div_abs (Num x) (Num y) =
     (if y = 0 then (if x = 0 then NaN else PosInf) else to_double (x / y))"
| "div_abs (Num x) PosInf = Num 0"
| "div_abs PosInf (Num y) = PosInf"
| "div_abs a b = NaN"

text \<open>\<^verbatim>\<open>a * b\<close> and \<^verbatim>\<open>a / b\<close>: the sign is negative iff the signs of the operands differ.\<close>

definition js_mul :: "js_number \<Rightarrow> js_number \<Rightarrow> js_number" where
  "js_mul a b =
     (if a = NaN \<or> b = NaN then NaN
      else if is_neg a \<noteq> is_neg b then js_neg (mul_abs (js_abs a) (js_abs b))
      else mul_abs (js_abs a) (js_abs b))"

definition js_div :: "js_number \<Rightarrow> js_number \<Rightarrow> js_number" where
  "js_div a b =
     (if a = NaN \<or> b = NaN then NaN
      else if is_neg a \<noteq> is_neg b then js_neg (div_abs (js_abs a) (js_abs b))
      else div_abs (js_abs a) (js_abs b))"

subsection \<open>Strings\<close>

text \<open>The white space characters: TAB, LF, VT, FF, CR, SP, then U+00A0, U+1680, U+2000 to
  U+200A, U+2028, U+2029, U+202F, U+205F, U+3000 and U+FEFF, each as its UTF-8 bytes.\<close>

definition white_space :: "string list" where
  "white_space =
     [[CHR 0x09], [CHR 0x0A], [CHR 0x0B], [CHR 0x0C], [CHR 0x0D], [CHR 0x20],
      [CHR 0xC2, CHR 0xA0], [CHR 0xE1, CHR 0x9A, CHR 0x80],
      [CHR 0xE2, CHR 0x80, CHR 0x80], [CHR 0xE2, CHR 0x80, CHR 0x81],
      [CHR 0xE2, CHR 0x80, CHR 0x82], [CHR 0xE2, CHR 0x80, CHR 0x83],
      [CHR 0xE2, CHR 0x80, CHR 0x84], [CHR 0xE2, CHR 0x80, CHR 0x85],
      [CHR 0xE2, CHR 0x80, CHR 0x86], [CHR 0xE2, CHR 0x80, CHR 0x87],
      [CHR 0xE2, CHR 0x80, CHR 0x88], [CHR 0xE2, CHR 0x80, CHR 0x89],
      [CHR 0xE2, CHR 0x80, CHR 0x8A], [CHR 0xE2, CHR 0x80, CHR 0xA8],
      [CHR 0xE2, CHR 0x80, CHR 0xA9], [CHR 0xE2, CHR 0x80, CHR 0xAF],
      [CHR 0xE2, CHR 0x81, CHR 0x9F], [CHR 0xE3, CHR 0x80, CHR 0x80],
      [CHR 0xEF, CHR 0xBB, CHR 0xBF]]"

text \<open>The number of bytes of the first of the given characters that a string begins with,
  0 when it begins with none of them.\<close>

definition leading :: "string list \<Rightarrow> string \<Rightarrow> nat" where
  "leading ws s =
     (case filter (\<lambda>w. w \<noteq> [] \<and> take (length w) s = w) ws of [] \<Rightarrow> 0 | w # r \<Rightarrow> length w)"

fun skip :: "string list \<Rightarrow> string \<Rightarrow> string" where
  "skip ws [] = []"
| "skip ws (c # cs) =
     (case leading ws (c # cs) of 0 \<Rightarrow> c # cs | Suc k \<Rightarrow> skip ws (drop k cs))"

text \<open>Leading white space dropped, as \<^verbatim>\<open>parseInt\<close> and \<^verbatim>\<open>parseFloat\<close> do, and \<^verbatim>\<open>s.trim()\<close>.\<close>

definition skip_space :: "string \<Rightarrow> string" where
  "skip_space s = skip white_space s"

definition trim :: "string \<Rightarrow> string" where
  "trim s = rev (skip (map rev white_space) (rev (skip_space s)))"

text \<open>Lower-casing of the letters A to Z alone; \<^verbatim>\<open>toLowerCase\<close> does the same on a text of
  ASCII characters. The concrete inputs below use it.\<close>

definition case_table :: "(char \<times> char) list" where
  "case_table = zip ''ABCDEFGHIJKLMNOPQRSTUVWXYZ'' ''abcdefghijklmnopqrstuvwxyz''"

definition ascii_lower_char :: "char \<Rightarrow> char" where
  "ascii_lower_char c = (case map_of case_table c of Some l \<Rightarrow> l | None \<Rightarrow> c)"

definition ascii_lower :: "string \<Rightarrow> string" where
  "ascii_lower s = map ascii_lower_char s"

text \<open>\<^verbatim>\<open>s.split(",")\<close>: the pieces between the separators; the empty string gives one
  empty piece.\<close>

fun split :: "char \<Rightarrow> string \<Rightarrow> string list" where
  "split d [] = [[]]"
| "split d (c # cs) =
     (if c = d then [] # split d cs
      else (case split d cs of [] \<Rightarrow> [[c]] | w # ws \<Rightarrow> (c # w) # ws))"

text \<open>\<^verbatim>\<open>Boolean(s)\<close> on a string: the empty string is the only falsy one.\<close>

definition Boolean :: "string \<Rightarrow> bool" where
  "Boolean s = (s \<noteq> [])"

subsection \<open>Parsing numbers: \<^verbatim>\<open>parseInt(s, 10)\<close>, \<^verbatim>\<open>parseFloat(s)\<close>, \<^verbatim>\<open>Number(s)\<close>\<close>

definition digit_table :: "(char \<times> nat) list" where
  "digit_table =
     zip ''0123456789abcdefABCDEF''
         [0, 1, 2, 3, 4, 5, 6, 7, 8, 9, 10, 11, 12, 13, 14, 15, 10, 11, 12, 13, 14, 15]"

definition digit_val :: "char \<Rightarrow> nat" where
  "digit_val c = (case map_of digit_table c of Some d \<Rightarrow> d | None \<Rightarrow> 16)"

definition is_digit :: "nat \<Rightarrow> char \<Rightarrow> bool" where
  "is_digit radix c = (digit_val c < radix)"

definition digits_value :: "nat \<Rightarrow> string \<Rightarrow> nat" where
  "digits_value radix ds = foldl (\<lambda>n c. radix * n + digit_val c) 0 ds"

definition pow10 :: "int \<Rightarrow> rat" where
  "pow10 e = (if 0 \<le> e then 10 ^ nat e else 1 / 10 ^ nat (- e))"

text \<open>An exponent part \<^verbatim>\<open>e\<close>/\<^verbatim>\<open>E\<close>, an optional sign and at least one digit: its value and
  the rest of the string.\<close>

definition exponent_part :: "string \<Rightarrow> (int \<times> string) option" where
  "exponent_part s =
     (case s of
        [] \<Rightarrow> None
      | c # r \<Rightarrow>
          if c = CHR ''e'' \<or> c = CHR ''E'' then
            (let (sgn, r') =
                   (case r of
                      [] \<Rightarrow> (1, r)
                    | d # t \<Rightarrow> if d = CHR ''+'' then (1, t)
                               else if d = CHR ''-'' then (- 1, t) else (1, r));
                 ds = takeWhile (is_digit 10) r'
             in if ds = [] then None
                else Some (sgn * int (digits_value 10 ds), dropWhile (is_digit 10) r'))
          else None)"

text \<open>The double for the mantissa \<open>m\<close> and the exponent part that follows, if any.\<close>

definition with_exponent :: "rat \<Rightarrow> string \<Rightarrow> (js_number \<times> string) option" where
  "with_exponent m r =
     (case exponent_part r of
        Some (e, r') \<Rightarrow> Some (to_double (m * pow10 e), r')
      | None \<Rightarrow> Some (to_double m, r))"

text \<open>The longest prefix that is an unsigned decimal literal (\<^verbatim>\<open>Infinity\<close>, \<^verbatim>\<open>12\<close>, \<^verbatim>\<open>12.\<close>,
  \<^verbatim>\<open>12.5\<close>, \<^verbatim>\<open>.5\<close>, each of the last four with an optional exponent), with the rest.\<close>

definition str_unsigned_decimal :: "string \<Rightarrow> (js_number \<times> string) option" where
  "str_unsigned_decimal s =
     (if take 8 s = ''Infinity'' then Some (PosInf, drop 8 s)
      else
        (let ip = takeWhile (is_digit 10) s; r1 = dropWhile (is_digit 10) s
         in case r1 of
              [] \<Rightarrow> if ip = [] then None else Some (to_double (of_nat (digits_value 10 ip)), [])
            | c # r2 \<Rightarrow>
                if c = CHR ''.'' then
                  (let fp = takeWhile (is_digit 10) r2; r3 = dropWhile (is_digit 10) r2
                   in if ip = [] \<and> fp = [] then None
                      else with_exponent
                             (of_nat (digits_value 10 ip)
                                + of_nat (digits_value 10 fp) / 10 ^ length fp) r3)
                else if ip = [] then None
                else with_exponent (of_nat (digits_value 10 ip)) r1))"

definition str_decimal :: "string \<Rightarrow> (js_number \<times> string) option" where
  "str_decimal s =
     (case s of
        [] \<Rightarrow> None
      | c # r \<Rightarrow>
          if c = CHR ''+'' then str_unsigned_decimal r
          else if c = CHR ''-'' then map_option (\<lambda>(v, t). (js_neg v, t)) (str_unsigned_decimal r)
          else str_unsigned_decimal s)"

definition parseFloat :: "string \<Rightarrow> js_number" where
  "parseFloat s =
     (case str_decimal (skip_space s) of Some (v, r) \<Rightarrow> v | None \<Rightarrow> NaN)"

text \<open>\<^verbatim>\<open>parseInt(s, 10)\<close>: leading white space, an optional sign, then the longest run of
  decimal digits; \<open>NaN\<close> when there is no digit.\<close>

definition parseInt10 :: "string \<Rightarrow> js_number" where
  "parseInt10 s =
     (let t = skip_space s;
          (neg, u) =
            (case t of
               [] \<Rightarrow> (False, t)
             | c # r \<Rightarrow> if c = CHR ''-'' then (True, r)
                        else if c = CHR ''+'' then (False, r) else (False, t));
          ds = takeWhile (is_digit 10) u
      in if ds = [] then NaN
         else if neg then js_neg (to_double (of_nat (digits_value 10 ds)))
         else to_double (of_nat (digits_value 10 ds)))"

definition radix_literal :: "nat \<Rightarrow> string \<Rightarrow> js_number" where
  "radix_literal radix ds =
     (if ds \<noteq> [] \<and> list_all (is_digit radix) ds then to_double (of_nat (digits_value radix ds))
      else NaN)"

text \<open>\<^verbatim>\<open>Number(s)\<close> on a string: the whole string, white space trimmed, must be a numeric
  literal; the empty string is 0.\<close>

definition Number :: "string \<Rightarrow> js_number" where
  "Number s =
     (let t = trim s
      in if t = [] then Num 0
         else if take 2 t = ''0x'' \<or> take 2 t = ''0X'' then radix_literal 16 (drop 2 t)
         else if take 2 t = ''0o'' \<or> take 2 t = ''0O'' then radix_literal 8 (drop 2 t)
         else if take 2 t = ''0b'' \<or> take 2 t = ''0B'' then radix_literal 2 (drop 2 t)
         else (case str_decimal t of
                 Some (v, r) \<Rightarrow> if r = [] then v else NaN
               | None \<Rightarrow> NaN))"

subsection \<open>Property reads and writes on plain objects\<close>

text \<open>
  \<^verbatim>\<open>state.bounties\<close> and \<^verbatim>\<open>STATUS_TO_EVENT\<close> are plain objects used as dictionaries. A
  read \<^verbatim>\<open>obj[k]\<close> finds the object's own property, else what \<^verbatim>\<open>Object.prototype\<close> has
  under that name (a function, or the prototype itself for \<^verbatim>\<open>__proto__\<close>), else
  \<^verbatim>\<open>undefined\<close>. A write \<^verbatim>\<open>obj[k] = v\<close> makes or updates an own property, except under
  the name \<^verbatim>\<open>__proto__\<close>, whose inherited setter ignores a string.
\<close>

definition Object_prototype_names :: "string list" where
  "Object_prototype_names =
     [''constructor'', ''hasOwnProperty'', ''isPrototypeOf'', ''propertyIsEnumerable'',
      ''toLocaleString'', ''toString'', ''valueOf'', ''__proto__'', ''__defineGetter__'',
      ''__defineSetter__'', ''__lookupGetter__'', ''__lookupSetter__'']"

datatype 'a lookup = Undefined | Own 'a | Inherited

definition js_get :: "(string \<rightharpoonup> 'a) \<Rightarrow> string \<Rightarrow> 'a lookup" where
  "js_get obj k =
     (case obj k of
        Some v \<Rightarrow> Own v
      | None \<Rightarrow> if k \<in> set Object_prototype_names then Inherited else Undefined)"

definition js_set :: "(string \<rightharpoonup> 'a) \<Rightarrow> string \<Rightarrow> 'a \<Rightarrow> (string \<rightharpoonup> 'a)" where
  "js_set obj k v = (if k = ''__proto__'' \<and> obj k = None then obj else obj(k \<mapsto> v))"

text \<open>\<^verbatim>\<open>!prevStatus\<close>: \<^verbatim>\<open>undefined\<close> and the empty string are falsy; a non-empty string and
  an inherited function or object are truthy.\<close>

fun falsy :: "string lookup \<Rightarrow> bool" where
  "falsy Undefined = True"
| "falsy (Own s) = (s = [])"
| "falsy Inherited = False"

section \<open>Configuration\<close>

type_synonym env = "string \<rightharpoonup> string"

text \<open>\<^verbatim>\<open>process.env.X || d\<close>: the default stands in when the variable is unset or empty.\<close>

definition env_or :: "env \<Rightarrow> string \<Rightarrow> string \<Rightarrow> string" where
  "env_or e name d = (case e name of None \<Rightarrow> d | Some v \<Rightarrow> if Boolean v then v else d)"

text \<open>The constants of the module, and with them the engine's \<^verbatim>\<open>toLowerCase\<close>, which the
  source applies to the configured tags when it loads them and to a bounty's tags when it
  filters.\<close>

record Config =
  BOUNTY_API :: string
  WEBHOOK_URLS :: "string list"
  POLL_INTERVAL :: js_number
  FILTER_TAGS :: "string list"
  FILTER_MIN_REWARD :: js_number
  PORT :: js_number
  toLowerCase :: "string \<Rightarrow> string"

definition load_config :: "(string \<Rightarrow> string) \<Rightarrow> env \<Rightarrow> Config" where
  "load_config lc e =
     \<lparr> BOUNTY_API = env_or e ''BOUNTY_API'' ''https://bounty.owockibot.xyz'',
       WEBHOOK_URLS =
         filter Boolean (map trim (split CHR '','' (env_or e ''WEBHOOK_URLS'' ''''))),
       POLL_INTERVAL = js_mul (parseInt10 (env_or e ''POLL_INTERVAL'' ''60'')) (Num 1000),
       FILTER_TAGS =
         filter Boolean
           (map (\<lambda>t. lc (trim t)) (split CHR '','' (env_or e ''FILTER_TAGS'' ''''))),
       FILTER_MIN_REWARD = parseFloat (env_or e ''FILTER_MIN_REWARD'' ''0''),
       PORT = parseInt10 (env_or e ''PORT'' ''3001''),
       toLowerCase = lc \<rparr>"

section \<open>Data model\<close>

text \<open>The field \<^verbatim>\<open>id\<close> of a bounty is \<open>bounty_id\<close> here, \<open>id\<close> being the identity function
  of HOL; \<^verbatim>\<open>req.method\<close> is \<open>http_method\<close> below for a like reason.\<close>

record Bounty =
  bounty_id :: string
  title :: string
  description :: string
  tags :: "string list"
  reward :: string
  rewardFormatted :: string
  status :: string
  creator :: string
  createdAt :: int
  updatedAt :: int
  claimedBy :: "string option"
  completedAt :: "int option"
  requirements :: "string list option"

record State =
  bounties :: "string \<rightharpoonup> string"

datatype EventType =
  bounty_created | bounty_claimed | bounty_submitted | bounty_completed | bounty_payment_failed

text \<open>The \<open>event\<close> of a payload is what the source puts there: an event name, or, when
  \<^verbatim>\<open>STATUS_TO_EVENT[bounty.status]\<close> found an inherited property, that function.\<close>

record WebhookPayload =
  event :: "EventType lookup"
  bounty :: Bounty
  timestamp :: string

section \<open>State store\<close>

text \<open>The state file is missing, unreadable as JSON, or holds a state.\<close>

datatype file_content = Missing | Corrupt | Stored State

definition loadState :: "file_content \<Rightarrow> State" where
  "loadState f =
     (case f of
        Stored s \<Rightarrow> s
      | Corrupt \<Rightarrow> \<lparr>bounties = Map.empty\<rparr>
      | Missing \<Rightarrow> \<lparr>bounties = Map.empty\<rparr>)"

text \<open>\<^verbatim>\<open>writeFileSync\<close> succeeds, or throws having left the file as it was, or throws
  having truncated it. The result says whether it threw, and what the file holds.\<close>

datatype write_outcome = Written | WriteError_untouched | WriteError_truncated

definition saveState :: "write_outcome \<Rightarrow> file_content \<Rightarrow> State \<Rightarrow> bool \<times> file_content" where
  "saveState d f s =
     (case d of
        Written \<Rightarrow> (False, Stored s)
      | WriteError_untouched \<Rightarrow> (True, f)
      | WriteError_truncated \<Rightarrow> (True, Corrupt))"

section \<open>Filter policy\<close>

definition matchesFilters :: "Config \<Rightarrow> Bounty \<Rightarrow> bool" where
  "matchesFilters cfg b =
     (if FILTER_TAGS cfg \<noteq> []
         \<and> \<not> list_ex (\<lambda>t. toLowerCase cfg t \<in> set (FILTER_TAGS cfg)) (tags b) then False
      else if js_gt (FILTER_MIN_REWARD cfg) (Num 0)
         \<and> js_lt (js_div (Number (reward b)) (Num 1000000)) (FILTER_MIN_REWARD cfg) then False
      else True)"

definition STATUS_TO_EVENT :: "string \<rightharpoonup> EventType" where
  "STATUS_TO_EVENT =
     map_of [(''open'', bounty_created), (''claimed'', bounty_claimed),
             (''submitted'', bounty_submitted), (''completed'', bounty_completed),
             (''payment_failed'', bounty_payment_failed)]"

section \<open>Webhook dispatcher\<close>

text \<open>One line per POST: the destination, the payload, and the response status, or \<open>None\<close>
  when the request threw (caught and logged per destination).\<close>

record post =
  url :: string
  payload :: WebhookPayload
  outcome :: "nat option"

type_synonym network = "string \<Rightarrow> WebhookPayload \<Rightarrow> nat option"

fun fireWebhook_loop :: "network \<Rightarrow> WebhookPayload \<Rightarrow> string list \<Rightarrow> post list" where
  "fireWebhook_loop nw p [] = []"
| "fireWebhook_loop nw p (u # us) =
     \<lparr>url = u, payload = p, outcome = nw u p\<rparr> # fireWebhook_loop nw p us"

definition fireWebhook :: "Config \<Rightarrow> network \<Rightarrow> WebhookPayload \<Rightarrow> post list" where
  "fireWebhook cfg nw p = fireWebhook_loop nw p (WEBHOOK_URLS cfg)"

section \<open>Remote source client\<close>

text \<open>What a request to the upstream yields: no response (the transport threw), or a
  status with the decoded JSON body, \<open>None\<close> when the body does not decode.\<close>

datatype 'a http_result = NoResponse | Response nat "'a option"

datatype fetch_error = TransportError | ApiError nat | DecodeError

text \<open>An element of the fetched array is a bounty, or \<open>None\<close> for an element that is not
  an object (JSON \<^verbatim>\<open>null\<close>), on which the property reads of the poll loop throw.\<close>

definition fetchBounties :: "Bounty option list http_result \<Rightarrow> fetch_error + Bounty option list" where
  "fetchBounties res =
     (case res of
        NoResponse \<Rightarrow> Inl TransportError
      | Response code body \<Rightarrow>
          if \<not> (200 \<le> code \<and> code \<le> 299) then Inl (ApiError code)
          else (case body of None \<Rightarrow> Inl DecodeError | Some items \<Rightarrow> Inr items))"

section \<open>Poll cycle\<close>

text \<open>What is outside the process during one poll: the state file, the upstream's answer to
  \<^verbatim>\<open>GET /bounties\<close>, the webhook destinations' answers, the clock read by
  \<^verbatim>\<open>new Date()\<close> (by the number of dates made so far), and what the write of the state
  file does.\<close>

record world =
  state_file :: file_content
  upstream :: "Bounty option list http_result"
  net :: network
  clock :: "nat \<Rightarrow> string"
  disk :: write_outcome

text \<open>The variables of \<^verbatim>\<open>poll\<close> and its effects: \<open>created\<close>, \<open>changed\<close> and \<open>errors\<close> are
  the object it returns; \<open>posts\<close> the webhook requests made, in order; \<open>file_now\<close> the state file
  when it returns.\<close>

record run =
  state :: State
  created :: nat
  changed :: nat
  errors :: nat
  posts :: "post list"
  ticks :: nat
  file_now :: file_content

definition dispatch :: "Config \<Rightarrow> world \<Rightarrow> EventType lookup \<Rightarrow> Bounty \<Rightarrow> run \<Rightarrow> run" where
  "dispatch cfg w ev b r =
     r\<lparr>posts := posts r @ fireWebhook cfg (net w)
                             \<lparr>event = ev, bounty = b, timestamp = clock w (ticks r)\<rparr>,
       ticks := ticks r + 1\<rparr>"

definition set_status :: "run \<Rightarrow> string \<Rightarrow> string \<Rightarrow> run" where
  "set_status r k v = r\<lparr>state := \<lparr>bounties = js_set (bounties (state r)) k v\<rparr>\<rparr>"

text \<open>The body of the \<^verbatim>\<open>for\<close> loop of \<^verbatim>\<open>poll\<close>, for one bounty.\<close>

definition loop_body :: "Config \<Rightarrow> world \<Rightarrow> run \<Rightarrow> Bounty \<Rightarrow> run" where
  "loop_body cfg w r b =
     (if \<not> matchesFilters cfg b then r
      else
        (let prevStatus = js_get (bounties (state r)) (bounty_id b)
         in if falsy prevStatus then
              (let r1 = set_status r (bounty_id b) (status b);
                   r2 = (if WEBHOOK_URLS cfg \<noteq> [] then dispatch cfg w (Own bounty_created) b r1
                         else r1)
               in r2\<lparr>created := created r2 + 1\<rparr>)
            else if prevStatus \<noteq> Own (status b) then
              (let ev = js_get STATUS_TO_EVENT (status b);
                   r1 = (if ev \<noteq> Undefined \<and> WEBHOOK_URLS cfg \<noteq> [] then dispatch cfg w ev b r
                         else r);
                   r2 = set_status r1 (bounty_id b) (status b)
               in r2\<lparr>changed := changed r2 + 1\<rparr>)
            else r))"

text \<open>The loop: the flag says whether an iteration threw (at an element that is not an
  object), which leaves the loop with the variables as they are.\<close>

fun poll_loop :: "Config \<Rightarrow> world \<Rightarrow> run \<Rightarrow> Bounty option list \<Rightarrow> bool \<times> run" where
  "poll_loop cfg w r [] = (False, r)"
| "poll_loop cfg w r (None # rest) = (True, r)"
| "poll_loop cfg w r (Some b # rest) = poll_loop cfg w (loop_body cfg w r b) rest"

text \<open>The variables when the loop is entered: the loaded state, the counters at 0.\<close>

definition start :: "world \<Rightarrow> run" where
  "start w =
     \<lparr>state = loadState (state_file w), created = 0, changed = 0, errors = 0,
      posts = [], ticks = 0, file_now = state_file w\<rparr>"

definition poll :: "Config \<Rightarrow> world \<Rightarrow> run" where
  "poll cfg w =
     (let r0 = start w
      in case fetchBounties (upstream w) of
           Inl err \<Rightarrow> r0\<lparr>errors := errors r0 + 1\<rparr>
         | Inr items \<Rightarrow>
             (case poll_loop cfg w r0 items of
                (threw, r1) \<Rightarrow>
                  if threw then r1\<lparr>errors := errors r1 + 1\<rparr>
                  else
                    (case saveState (disk w) (file_now r1) (state r1) of
                       (failed, f) \<Rightarrow>
                         if failed then r1\<lparr>file_now := f, errors := errors r1 + 1\<rparr>
                         else r1\<lparr>file_now := f\<rparr>)))"

text \<open>Consecutive polls: each starts from the state file the one before left; the rest of
  the world is given per poll.\<close>

fun polls :: "Config \<Rightarrow> file_content \<Rightarrow> world list \<Rightarrow> file_content" where
  "polls cfg f [] = f"
| "polls cfg f (w # ws) = polls cfg (file_now (poll cfg (w\<lparr>state_file := f\<rparr>))) ws"

text \<open>The bounties a poll works on: the fetched array, empty when the fetch throws.\<close>

definition fetched :: "world \<Rightarrow> Bounty option list" where
  "fetched w = (case fetchBounties (upstream w) of Inl err \<Rightarrow> [] | Inr items \<Rightarrow> items)"

section \<open>HTTP front door\<close>

datatype json =
  JNull | JBool bool | JNumber js_number | JString string | JArray "json list"
  | JObject "(string \<times> json) list"

text \<open>\<^verbatim>\<open>JSON.stringify\<close> writes \<open>NaN\<close> and the infinities as \<^verbatim>\<open>null\<close>, and the negative
  zero as \<^verbatim>\<open>0\<close>.\<close>

definition json_number :: "js_number \<Rightarrow> json" where
  "json_number n =
     (case n of
        Num x \<Rightarrow> JNumber n
      | NegZero \<Rightarrow> JNumber (Num 0)
      | NaN \<Rightarrow> JNull
      | PosInf \<Rightarrow> JNull
      | NegInf \<Rightarrow> JNull)"

record request =
  pathname :: string
  http_method :: string
  text_body :: "string option"

record http_response =
  code :: nat
  body :: json

text \<open>\<^verbatim>\<open>Response.json(data, {status})\<close>, as the Fetch standard has it: it throws (\<open>None\<close>)
  for a status outside 200..599 and for a status that allows no body.\<close>

definition Response_json :: "json \<Rightarrow> nat \<Rightarrow> http_response option" where
  "Response_json data st =
     (if \<not> (200 \<le> st \<and> st \<le> 599) \<or> st \<in> set [204, 205, 304] then None
      else Some \<lparr>code = st, body = data\<rparr>)"

definition proxy_failure :: http_response where
  "proxy_failure = \<lparr>code = 502, body = JObject [(''error'', JString ''Failed to proxy bounty creation'')]\<rparr>"

definition not_found :: http_response where
  "not_found = \<lparr>code = 404, body = JObject [(''error'', JString ''Not found'')]\<rparr>"

definition health :: "Config \<Rightarrow> http_response" where
  "health cfg =
     \<lparr>code = 200,
      body = JObject
        [(''status'', JString ''ok''),
         (''webhooks'', JNumber (Num (of_nat (length (WEBHOOK_URLS cfg))))),
         (''filterTags'', JArray (map JString (FILTER_TAGS cfg))),
         (''pollInterval'', json_number (js_div (POLL_INTERVAL cfg) (Num 1000)))]\<rparr>"

definition stats :: "run \<Rightarrow> http_response" where
  "stats r =
     \<lparr>code = 200,
      body = JObject
        [(''created'', JNumber (Num (of_nat (created r)))),
         (''changed'', JNumber (Num (of_nat (changed r)))),
         (''errors'', JNumber (Num (of_nat (errors r))))]\<rparr>"

text \<open>The proxy branch: every throw inside its \<^verbatim>\<open>try\<close> (reading the request text, the
  upstream request, decoding the upstream body, building the response) ends in the fixed
  502 response. \<open>create\<close> is the upstream's answer to \<^verbatim>\<open>POST /bounties\<close> with a given body.\<close>

definition proxy :: "(string \<Rightarrow> json http_result) \<Rightarrow> request \<Rightarrow> http_response" where
  "proxy create req =
     (case text_body req of
        None \<Rightarrow> proxy_failure
      | Some txt \<Rightarrow>
          (case create txt of
             NoResponse \<Rightarrow> proxy_failure
           | Response st decoded \<Rightarrow>
               (case decoded of
                  None \<Rightarrow> proxy_failure
                | Some data \<Rightarrow>
                    (case Response_json data st of
                       None \<Rightarrow> proxy_failure
                     | Some res \<Rightarrow> res))))"

text \<open>The request handler: the response, and the poll it ran, if any.\<close>

definition handle ::
  "Config \<Rightarrow> world \<Rightarrow> (string \<Rightarrow> json http_result) \<Rightarrow> request \<Rightarrow> http_response \<times> run option" where
  "handle cfg w create req =
     (if pathname req = ''/health'' then (health cfg, None)
      else if pathname req = ''/bounties'' \<and> http_method req = ''POST'' then (proxy create req, None)
      else if pathname req = ''/poll'' \<and> http_method req = ''POST'' then
        (let r = poll cfg w in (stats r, Some r))
      else (not_found, None))"

section \<open>Notions the statements use\<close>

text \<open>Two strings are the same up to letter case: lower-cased, they are equal.\<close>

definition ci_eq :: "(string \<Rightarrow> string) \<Rightarrow> string \<Rightarrow> string \<Rightarrow> bool" where
  "ci_eq lc a b = (lc a = lc b)"

text \<open>The tag filter set as configured: the pieces of \<^verbatim>\<open>FILTER_TAGS\<close> between commas, trimmed,
  less those whose lower-cased text is empty. \<open>FILTER_TAGS\<close> holds them lower-cased.\<close>

definition tag_filter :: "(string \<Rightarrow> string) \<Rightarrow> env \<Rightarrow> string list" where
  "tag_filter lc e =
     filter (\<lambda>f. Boolean (lc f)) (map trim (split CHR '','' (env_or e ''FILTER_TAGS'' '''')))"

text \<open>The human-unit reward \<^verbatim>\<open>Number(bounty.reward) / 1e6\<close>.\<close>

definition usdc :: "Bounty \<Rightarrow> js_number" where
  "usdc b = js_div (Number (reward b)) (Num 1000000)"

text \<open>\<^verbatim>\<open>res.ok\<close>.\<close>

definition ok :: "nat \<Rightarrow> bool" where
  "ok st = (200 \<le> st \<and> st \<le> 299)"

text \<open>Two runs that differ at most in the webhook requests logged.\<close>

definition agree_but_posts :: "run \<Rightarrow> run \<Rightarrow> bool" where
  "agree_but_posts r r' =
     (state r = state r' \<and> created r = created r' \<and> changed r = changed r'
      \<and> errors r = errors r' \<and> ticks r = ticks r' \<and> file_now r = file_now r')"

text \<open>The identifiers of the bounties of a fetched array that pass the filter.\<close>

definition matching_ids :: "Config \<Rightarrow> Bounty option list \<Rightarrow> string set" where
  "matching_ids cfg items = {bounty_id b | b. Some b \<in> set items \<and> matchesFilters cfg b}"

subsection \<open>The shape of a numeric text\<close>

text \<open>An optional sign: nothing, \<^verbatim>\<open>+\<close> or \<^verbatim>\<open>-\<close>.\<close>

definition opt_sign :: "string \<Rightarrow> bool" where
  "opt_sign sg = (sg = [] \<or> sg = ''+'' \<or> sg = ''-'')"

text \<open>One decimal digit or more, and nothing else.\<close>

definition decimal_digits :: "string \<Rightarrow> bool" where
  "decimal_digits ds = (ds \<noteq> [] \<and> list_all (is_digit 10) ds)"

text \<open>What follows a run of digits ends it: it is empty, or begins with a character that is
  neither a decimal digit nor one of \<open>stop\<close>.\<close>

definition ends_digits :: "string \<Rightarrow> string \<Rightarrow> bool" where
  "ends_digits stop rest = (rest = [] \<or> (\<not> is_digit 10 (hd rest) \<and> hd rest \<notin> set stop))"

text \<open>A text begins an unsigned decimal literal: with \<^verbatim>\<open>Infinity\<close>, with a digit, or with a
  point and a digit.\<close>

definition begins_decimal :: "string \<Rightarrow> bool" where
  "begins_decimal t =
     (take 8 t = ''Infinity''
      \<or> (\<exists>d r. t = d # r \<and> is_digit 10 d)
      \<or> (\<exists>d r. t = CHR ''.'' # d # r \<and> is_digit 10 d))"

text \<open>The double nearest to the rational \<open>q\<close>, negated after the sign \<^verbatim>\<open>-\<close>.\<close>

definition signed :: "string \<Rightarrow> rat \<Rightarrow> js_number" where
  "signed sg q = (if sg = ''-'' then js_neg (to_double q) else to_double q)"

subsection \<open>Concrete inputs\<close>

definition example_bounty :: "string \<Rightarrow> string \<Rightarrow> Bounty" where
  "example_bounty i s =
     \<lparr>bounty_id = i, title = ''Fix the parser'', description = ''A task'', tags = [''Coding''],
      reward = ''20000000'', rewardFormatted = ''20 USDC'', status = s, creator = ''0xabc'',
      createdAt = 1770000000, updatedAt = 1770000000, claimedBy = None, completedAt = None,
      requirements = None\<rparr>"

definition example_env :: env where
  "example_env =
     [''WEBHOOK_URLS'' \<mapsto> ''https://hooks.example/a'', ''FILTER_TAGS'' \<mapsto> ''coding, Agents'',
      ''FILTER_MIN_REWARD'' \<mapsto> ''5'']"

definition example_config :: Config where
  "example_config = load_config ascii_lower example_env"

definition example_world :: "file_content \<Rightarrow> Bounty option list http_result \<Rightarrow> world" where
  "example_world f up =
     \<lparr>state_file = f, upstream = up, net = (\<lambda>u p. Some 200),
      clock = (\<lambda>n. ''2026-02-06T00:00:00.000Z''), disk = Written\<rparr>"

definition example_state :: "string \<Rightarrow> string \<Rightarrow> State" where
  "example_state i s = \<lparr>bounties = [i \<mapsto> s]\<rparr>"

section \<open>Doubles that are natural numbers\<close>

lemma bitlen_le: "n < 2 ^ k \<Longrightarrow> bitlen n \<le> k"
proof (induction k arbitrary: n)
  case 0
  then show ?case by (simp add: bitlen.simps)
next
  case (Suc k)
  show ?case
  proof (cases "n = 0")
    case True
    then show ?thesis by (simp add: bitlen.simps)
  next
    case False
    from Suc.prems have "n div 2 < 2 ^ k" by simp
    then have "bitlen (n div 2) \<le> k" by (rule Suc.IH)
    with False show ?thesis by (simp add: bitlen.simps [of n])
  qed
qed

lemma bitlen_pos: "n \<noteq> 0 \<Longrightarrow> 0 < bitlen n"
  by (simp add: bitlen.simps [of n])

lemma round_half_even_of_int [simp]: "round_half_even (of_int k) = k"
  by (simp add: round_half_even_def)

lemma pow2_nonpos: "e \<le> 0 \<Longrightarrow> pow2 e = 1 / 2 ^ nat (- e)"
  by (cases "e = 0") (simp_all add: pow2_def)

text \<open>A natural number below \<open>2\<^sup>5\<^sup>3\<close> is a double.\<close>

lemma to_double_of_nat:
  assumes "n < 2 ^ 53"
  shows "to_double (of_nat n) = Num (of_nat n)"
proof (cases "n = 0")
  case True
  then show ?thesis by (simp add: to_double_def round_pos_def)
next
  case False
  define e where "e = int (bitlen n) - 1"
  define k where "k = nat (52 - e)"
  from assms have "bitlen n \<le> 53" by (rule bitlen_le)
  moreover from False have "0 < bitlen n" by (rule bitlen_pos)
  ultimately have e: "0 \<le> e" "e \<le> 52" by (simp_all add: e_def)
  from False have b: "binade (of_nat n) = e"
    by (simp add: binade_def e_def)
  from e have m: "max e (- 1022) = e" by simp
  from e have u: "pow2 (e - 52) = 1 / 2 ^ k"
    by (simp add: pow2_nonpos k_def)
  have q: "(of_nat n :: rat) / (1 / 2 ^ k) = of_int (int n * 2 ^ k)" by simp
  have r: "round_pos (of_nat n) = Num (of_int (int n * 2 ^ k) * (1 / 2 ^ k))"
    using False e unfolding round_pos_def b m Let_def u q round_half_even_of_int
    by simp
  then have "round_pos (of_nat n) = Num (of_nat n)" by simp
  then show ?thesis by (simp add: to_double_def)
qed

lemma to_double_numeral:
  "(numeral k :: nat) < 2 ^ 53 \<Longrightarrow> to_double (numeral k) = Num (numeral k)"
  using to_double_of_nat [of "numeral k"] by simp

lemma to_double_zero_one [simp]: "to_double 0 = Num 0" "to_double 1 = Num 1"
  using to_double_of_nat [of 0] to_double_of_nat [of 1] by simp_all

lemma round_pos_not_NaN [simp]: "round_pos q \<noteq> NaN"
  by (simp add: round_pos_def Let_def)

lemma js_neg_NaN [simp]: "(js_neg a = NaN) = (a = NaN)"
  by (cases a) simp_all

lemma to_double_not_NaN [simp]: "to_double x \<noteq> NaN"
  by (simp add: to_double_def)

section \<open>Rounding, evaluated\<close>

lemma floor_rat_numeral: "\<lfloor>(numeral a :: rat) / numeral b\<rfloor> = numeral a div numeral b"
  using floor_divide_of_int_eq [of "numeral a" "numeral b", where ?'a = rat] by simp

lemmas round_ev = to_double_def round_pos_def binade_def bitlen.simps round_half_even_def pow2_def
  floor_rat_numeral Let_def

text \<open>\<^verbatim>\<open>0.1\<close> is the double \<open>3602879701896397 / 2\<^sup>5\<^sup>5\<close>; above \<open>2\<^sup>5\<^sup>3\<close> an odd integer is
  rounded to the even neighbour of its two; a number too large is the infinity.\<close>

lemma double_tenth: "to_double (1 / 10) = Num (3602879701896397 / 36028797018963968)"
  by (simp add: round_ev)

lemma double_ties_to_even:
  "to_double 9007199254740993 = Num 9007199254740992"
  "to_double 9007199254740995 = Num 9007199254740996"
  by (simp_all add: round_ev)

lemma double_three_halves: "to_double (3 / 2) = Num (3 / 2)" "to_double (5 / 2) = Num (5 / 2)"
  by (simp_all add: round_ev)

lemma double_just_above_five: "to_double (50000000000000001 / 10000000000000000) = Num 5"
  by (simp add: round_ev)

section \<open>Evaluating the definitions on concrete inputs\<close>

lemmas parse_ev = parseInt10_def parseFloat_def Number_def str_decimal_def str_unsigned_decimal_def
  with_exponent_def exponent_part_def pow10_def digits_value_def is_digit_def digit_val_def
  digit_table_def trim_def skip_space_def leading_def white_space_def radix_literal_def Let_def
  to_double_numeral

lemma example_filter:
  "FILTER_TAGS example_config = [''coding'', ''agents'']"
  "FILTER_MIN_REWARD example_config = Num 5"
  "WEBHOOK_URLS example_config = [''https://hooks.example/a'']"
  "toLowerCase example_config = ascii_lower"
  by (simp_all add: example_config_def example_env_def load_config_def env_or_def Boolean_def
      ascii_lower_def ascii_lower_char_def case_table_def parse_ev)

lemma example_bounty_fields [simp]:
  "bounty_id (example_bounty i s) = i" "status (example_bounty i s) = s"
  "tags (example_bounty i s) = [''Coding'']" "reward (example_bounty i s) = ''20000000''"
  by (simp_all add: example_bounty_def)

lemma example_reward: "js_div (Number ''20000000'') (Num 1000000) = Num 20"
  by (simp add: parse_ev js_div_def)

lemma design_bounty_filtered:
  "\<not> matchesFilters example_config ((example_bounty ''9'' ''open'')\<lparr>tags := [''Design'']\<rparr>)"
  by (simp add: matchesFilters_def example_filter ascii_lower_def ascii_lower_char_def
      case_table_def)

lemma example_bounty_matches: "matchesFilters example_config (example_bounty i s)"
  by (simp add: matchesFilters_def example_filter ascii_lower_def ascii_lower_char_def
      case_table_def example_reward js_lt_def)

lemmas config_ev = example_filter example_bounty_fields example_bounty_matches

lemmas poll_ev = poll_def start_def loop_body_def fetchBounties_def loadState_def saveState_def
  dispatch_def set_status_def js_get_def js_set_def fireWebhook_def STATUS_TO_EVENT_def
  Object_prototype_names_def example_world_def example_state_def

section \<open>The loop, step by step\<close>

lemma start_fields [simp]:
  "state (start w) = loadState (state_file w)" "created (start w) = 0" "changed (start w) = 0"
  "errors (start w) = 0" "posts (start w) = []" "ticks (start w) = 0"
  "file_now (start w) = state_file w"
  by (simp_all add: start_def)

lemma loop_body_skip: "\<not> matchesFilters cfg b \<Longrightarrow> loop_body cfg w r b = r"
  by (simp add: loop_body_def)

lemma loop_body_errors [simp]: "errors (loop_body cfg w r b) = errors r"
  by (simp add: loop_body_def Let_def dispatch_def set_status_def)

lemma loop_body_file [simp]: "file_now (loop_body cfg w r b) = file_now r"
  by (simp add: loop_body_def Let_def dispatch_def set_status_def)

lemma js_set_other: "k \<noteq> i \<Longrightarrow> js_set m i v k = m k"
  by (simp add: js_set_def)

lemma loop_body_frame:
  "k \<noteq> bounty_id b \<or> \<not> matchesFilters cfg b
   \<Longrightarrow> bounties (state (loop_body cfg w r b)) k = bounties (state r) k"
  by (auto simp: loop_body_def Let_def dispatch_def set_status_def js_set_other)

lemma fireWebhook_loop_payload: "p \<in> set (fireWebhook_loop nw q us) \<Longrightarrow> payload p = q"
  by (induction us) auto

lemma loop_body_posts:
  "\<exists>extra. posts (loop_body cfg w r b) = posts r @ extra
     \<and> (\<forall>p \<in> set extra. bounty (payload p) = b \<and> matchesFilters cfg b)"
  by (auto simp: loop_body_def Let_def dispatch_def set_status_def fireWebhook_def
      dest: fireWebhook_loop_payload)

lemma poll_loop_errors [simp]: "errors (snd (poll_loop cfg w r items)) = errors r"
  by (induction cfg w r items rule: poll_loop.induct) simp_all

lemma poll_loop_file [simp]: "file_now (snd (poll_loop cfg w r items)) = file_now r"
  by (induction cfg w r items rule: poll_loop.induct) simp_all

lemma poll_loop_threw: "fst (poll_loop cfg w r items) = (None \<in> set items)"
  by (induction cfg w r items rule: poll_loop.induct) auto

lemma poll_loop_frame:
  "k \<notin> matching_ids cfg items
   \<Longrightarrow> bounties (state (snd (poll_loop cfg w r items))) k = bounties (state r) k"
proof (induction cfg w r items rule: poll_loop.induct)
  case (3 cfg w r b rest)
  from "3.prems" have "k \<noteq> bounty_id b \<or> \<not> matchesFilters cfg b"
    by (auto simp: matching_ids_def)
  moreover from "3.prems" have "k \<notin> matching_ids cfg rest"
    by (auto simp: matching_ids_def)
  ultimately show ?case
    using "3.IH" by (simp add: loop_body_frame)
qed simp_all

lemma poll_loop_posts:
  "\<exists>extra. posts (snd (poll_loop cfg w r items)) = posts r @ extra
     \<and> (\<forall>p \<in> set extra. Some (bounty (payload p)) \<in> set items
            \<and> matchesFilters cfg (bounty (payload p)))"
proof (induction cfg w r items rule: poll_loop.induct)
  case (3 cfg w r b rest)
  obtain e1 where e1: "posts (loop_body cfg w r b) = posts r @ e1"
    "\<forall>p \<in> set e1. bounty (payload p) = b \<and> matchesFilters cfg b"
    using loop_body_posts by blast
  from "3.IH" obtain e2 where e2:
    "posts (snd (poll_loop cfg w (loop_body cfg w r b) rest)) = posts (loop_body cfg w r b) @ e2"
    "\<forall>p \<in> set e2. Some (bounty (payload p)) \<in> set rest \<and> matchesFilters cfg (bounty (payload p))"
    by blast
  show ?case
    apply (rule exI [of _ "e1 @ e2"])
    using e1 e2 by auto
qed simp_all

text \<open>What \<^verbatim>\<open>poll\<close> returns, by the three ways its \<^verbatim>\<open>try\<close> block can end.\<close>

lemma poll_fetch_failed:
  "fetchBounties (upstream w) = Inl err \<Longrightarrow> poll cfg w = (start w)\<lparr>errors := 1\<rparr>"
  by (simp add: poll_def)

lemma poll_loop_failed:
  "fetchBounties (upstream w) = Inr items \<Longrightarrow> None \<in> set items
   \<Longrightarrow> poll cfg w = (snd (poll_loop cfg w (start w) items))\<lparr>errors := 1\<rparr>"
  using poll_loop_threw [of cfg w "start w" items]
  by (simp add: poll_def Let_def case_prod_beta)

lemma poll_saved:
  "fetchBounties (upstream w) = Inr items \<Longrightarrow> None \<notin> set items \<Longrightarrow> disk w = Written
   \<Longrightarrow> poll cfg w =
       (snd (poll_loop cfg w (start w) items))
         \<lparr>file_now := Stored (state (snd (poll_loop cfg w (start w) items)))\<rparr>"
  using poll_loop_threw [of cfg w "start w" items]
  by (simp add: poll_def Let_def case_prod_beta saveState_def)

lemma poll_save_failed:
  "fetchBounties (upstream w) = Inr items \<Longrightarrow> None \<notin> set items \<Longrightarrow> disk w \<noteq> Written
   \<Longrightarrow> poll cfg w =
       (snd (poll_loop cfg w (start w) items))
         \<lparr>file_now := (if disk w = WriteError_truncated then Corrupt else state_file w),
          errors := 1\<rparr>"
  using poll_loop_threw [of cfg w "start w" items]
  by (cases "disk w") (simp_all add: poll_def Let_def case_prod_beta saveState_def)

lemma poll_state: "state (poll cfg w) = state (snd (poll_loop cfg w (start w) (fetched w)))"
  by (cases "disk w")
     (simp_all add: poll_def fetched_def saveState_def Let_def case_prod_beta split: sum.splits)

lemma poll_posts: "posts (poll cfg w) = posts (snd (poll_loop cfg w (start w) (fetched w)))"
  by (cases "disk w")
     (simp_all add: poll_def fetched_def saveState_def Let_def case_prod_beta split: sum.splits)

lemma poll_frame:
  "k \<notin> matching_ids cfg (fetched w)
   \<Longrightarrow> bounties (state (poll cfg w)) k = bounties (loadState (state_file w)) k"
  by (simp add: poll_state poll_loop_frame)

lemma poll_posts_matching:
  "p \<in> set (posts (poll cfg w))
   \<Longrightarrow> Some (bounty (payload p)) \<in> set (fetched w) \<and> matchesFilters cfg (bounty (payload p))"
  using poll_loop_posts [of cfg w "start w" "fetched w"]
  by (auto simp: poll_posts)

text \<open>The state file after a poll holds the state the poll computed, or is as before, or
  is unreadable.\<close>

lemma poll_file_cases:
  "file_now (poll cfg w) = Stored (state (poll cfg w))
   \<or> file_now (poll cfg w) = state_file w \<or> file_now (poll cfg w) = Corrupt"
  by (cases "disk w")
     (simp_all add: poll_def saveState_def Let_def case_prod_beta split: sum.splits)

lemma poll_never_adds:
  assumes "bounties (loadState (state_file w)) k = None" "k \<notin> matching_ids cfg (fetched w)"
  shows "bounties (loadState (file_now (poll cfg w))) k = None"
  using poll_file_cases [of cfg w] poll_frame [OF assms(2)] assms(1)
  by (auto simp: loadState_def)

lemma polls_never_add:
  "bounties (loadState f) k = None \<Longrightarrow> \<forall>w \<in> set ws. k \<notin> matching_ids cfg (fetched w)
   \<Longrightarrow> bounties (loadState (polls cfg f ws)) k = None"
proof (induction ws arbitrary: f)
  case (Cons w ws)
  have "fetched (w\<lparr>state_file := f\<rparr>) = fetched w"
    by (simp add: fetched_def)
  with Cons.prems have "bounties (loadState (file_now (poll cfg (w\<lparr>state_file := f\<rparr>)))) k = None"
    by (intro poll_never_adds) simp_all
  with Cons show ?case by simp
qed simp

section \<open>A failed fetch\<close>

text \<open>
  Claim C4. If the upstream fetch fails (the transport throws, the status is not a success
  status, or the body does not decode), \<^verbatim>\<open>poll()\<close> returns
  \<^verbatim>\<open>{created: 0, changed: 0, errors: 1}\<close>, makes no webhook request and leaves the state
  file as it was.
\<close>

theorem C4_fetch_failure:
  assumes "upstream w = NoResponse
           \<or> (\<exists>st dec. upstream w = Response st dec \<and> (\<not> ok st \<or> dec = None))"
  shows "created (poll cfg w) = 0 \<and> changed (poll cfg w) = 0 \<and> errors (poll cfg w) = 1
         \<and> posts (poll cfg w) = [] \<and> file_now (poll cfg w) = state_file w"
proof -
  from assms have "\<exists>err. fetchBounties (upstream w) = Inl err"
    by (auto simp: fetchBounties_def ok_def)
  then obtain err where "fetchBounties (upstream w) = Inl err" ..
  then show ?thesis
    by (simp add: poll_def start_def)
qed

text \<open>An upstream 500 while the state file holds one bounty.\<close>

theorem C4_fetch_failure_witness:
  "created (poll example_config
      (example_world (Stored (example_state ''7'' ''open'')) (Response 500 None))) = 0
   \<and> changed (poll example_config
      (example_world (Stored (example_state ''7'' ''open'')) (Response 500 None))) = 0
   \<and> errors (poll example_config
      (example_world (Stored (example_state ''7'' ''open'')) (Response 500 None))) = 1
   \<and> posts (poll example_config
      (example_world (Stored (example_state ''7'' ''open'')) (Response 500 None))) = []
   \<and> file_now (poll example_config
      (example_world (Stored (example_state ''7'' ''open'')) (Response 500 None)))
     = Stored (example_state ''7'' ''open'')"
  using C4_fetch_failure [of "example_world (Stored (example_state ''7'' ''open'')) (Response 500 None)"
      example_config]
  by (simp add: example_world_def ok_def)

section \<open>Bounties that fail the filter\<close>

text \<open>
  Claim C6. For a bounty that fails the filter the loop body does nothing: no read or write
  of the state record and no webhook request. So a poll leaves every entry of the state
  record as loaded, except under the identifiers of fetched bounties that pass the filter;
  every webhook request of a poll carries a fetched bounty that passes the filter; and over
  any number of consecutive polls an identifier that never belongs to a passing bounty
  is never added to the state record.
\<close>

theorem C6_filtered_out_untouched:
  "(\<not> matchesFilters cfg b \<longrightarrow> loop_body cfg w r b = r)
   \<and> (k \<notin> matching_ids cfg (fetched w)
        \<longrightarrow> bounties (state (poll cfg w)) k = bounties (loadState (state_file w)) k)
   \<and> (\<forall>p \<in> set (posts (poll cfg w)).
         Some (bounty (payload p)) \<in> set (fetched w) \<and> matchesFilters cfg (bounty (payload p)))
   \<and> (bounties (loadState f) k = None \<and> (\<forall>v \<in> set ws. k \<notin> matching_ids cfg (fetched v))
        \<longrightarrow> bounties (loadState (polls cfg f ws)) k = None)"
  using loop_body_skip poll_frame poll_posts_matching polls_never_add by blast

text \<open>A bounty tagged \<^verbatim>\<open>Design\<close> under the tag filter \<^verbatim>\<open>coding, agents\<close>, polled twice.\<close>

theorem C6_filtered_out_untouched_witness:
  "loop_body example_config
      (example_world Missing
         (Response 200 (Some [Some ((example_bounty ''9'' ''open'')\<lparr>tags := [''Design'']\<rparr>)])))
      (start (example_world Missing (Response 200 None)))
      ((example_bounty ''9'' ''open'')\<lparr>tags := [''Design'']\<rparr>)
    = start (example_world Missing (Response 200 None))
   \<and> bounties (state (poll example_config
        (example_world Missing
           (Response 200 (Some [Some ((example_bounty ''9'' ''open'')\<lparr>tags := [''Design'']\<rparr>)])))))
       ''9'' = None
   \<and> posts (poll example_config
        (example_world Missing
           (Response 200 (Some [Some ((example_bounty ''9'' ''open'')\<lparr>tags := [''Design'']\<rparr>)]))))
       = []
   \<and> bounties (loadState (polls example_config Missing
        [example_world Missing
           (Response 200 (Some [Some ((example_bounty ''9'' ''open'')\<lparr>tags := [''Design'']\<rparr>)])),
         example_world Missing
           (Response 200 (Some [Some ((example_bounty ''9'' ''open'')\<lparr>tags := [''Design'']\<rparr>)]))]))
       ''9'' = None"
proof -
  let ?b = "(example_bounty ''9'' ''open'')\<lparr>tags := [''Design'']\<rparr>"
  let ?w = "example_world Missing (Response 200 (Some [Some ?b]))"
  have f: "fetched ?w = [Some ?b]"
    by (simp add: fetched_def fetchBounties_def example_world_def)
  have m: "''9'' \<notin> matching_ids example_config (fetched ?w)"
    by (simp add: f matching_ids_def design_bounty_filtered)
  have l: "bounties (loadState Missing) ''9'' = None" "state_file ?w = Missing"
    by (simp_all add: loadState_def example_world_def)
  note c = C6_filtered_out_untouched [of example_config ?b ?w
      "start (example_world Missing (Response 200 None))" "''9''" Missing "[?w, ?w]"]
  from c design_bounty_filtered have 1: "loop_body example_config ?w
      (start (example_world Missing (Response 200 None))) ?b
      = start (example_world Missing (Response 200 None))" by blast
  from c m l have 2: "bounties (state (poll example_config ?w)) ''9'' = None" by simp
  from c f design_bounty_filtered have 3: "posts (poll example_config ?w) = []"
    by (cases "posts (poll example_config ?w)") auto
  from c m l have 4: "bounties (loadState (polls example_config Missing [?w, ?w])) ''9'' = None"
    by simp
  from 1 2 3 4 show ?thesis by blast
qed

section \<open>Errors of a poll\<close>

text \<open>Webhook outcomes do not reach the variables of \<^verbatim>\<open>poll\<close>: \<^verbatim>\<open>fireWebhook\<close> catches
  each destination's failure.\<close>

lemma loop_body_net:
  "agree_but_posts r r'
   \<Longrightarrow> agree_but_posts (loop_body cfg (w\<lparr>net := n\<rparr>) r b) (loop_body cfg w r' b)"
  by (simp add: agree_but_posts_def loop_body_def Let_def dispatch_def set_status_def)

lemma poll_loop_net:
  "agree_but_posts r r'
   \<Longrightarrow> fst (poll_loop cfg (w\<lparr>net := n\<rparr>) r items) = fst (poll_loop cfg w r' items)
       \<and> agree_but_posts (snd (poll_loop cfg (w\<lparr>net := n\<rparr>) r items))
                          (snd (poll_loop cfg w r' items))"
proof (induction items arbitrary: r r')
  case Nil
  then show ?case by simp
next
  case (Cons x items)
  show ?case
  proof (cases x)
    case None
    with Cons.prems show ?thesis by simp
  next
    case (Some b)
    with Cons.IH [OF loop_body_net [OF Cons.prems]] show ?thesis by simp
  qed
qed

lemma poll_net: "agree_but_posts (poll cfg (w\<lparr>net := n\<rparr>)) (poll cfg w)"
proof -
  have s: "start (w\<lparr>net := n\<rparr>) = start w"
    by (simp add: start_def)
  have a: "agree_but_posts (start w) (start w)"
    by (simp add: agree_but_posts_def)
  show ?thesis
  proof (cases "fetchBounties (upstream w)")
    case (Inl err)
    then show ?thesis
      by (simp add: poll_def s agree_but_posts_def)
  next
    case (Inr items)
    from poll_loop_net [OF a, where cfg = cfg and w = w and n = n and items = items] Inr show ?thesis
      by (cases "disk w")
         (auto simp: poll_def s Let_def case_prod_beta saveState_def agree_but_posts_def)
  qed
qed

lemma poll_loop_stops:
  "snd (poll_loop cfg w r (pre @ None # post)) = snd (poll_loop cfg w r pre)"
proof (induction pre arbitrary: r)
  case Nil
  show ?case by simp
next
  case (Cons x pre)
  then show ?case by (cases x) simp_all
qed

lemma poll_errors:
  "errors (poll cfg w) =
     (if (\<exists>err. fetchBounties (upstream w) = Inl err) \<or> None \<in> set (fetched w)
         \<or> disk w \<noteq> Written then 1 else 0)"
proof (cases "fetchBounties (upstream w)")
  case (Inl err)
  then show ?thesis by (simp add: poll_fetch_failed)
next
  case (Inr items)
  then have f: "fetched w = items" by (simp add: fetched_def)
  show ?thesis
  proof (cases "None \<in> set items")
    case True
    with Inr f show ?thesis by (simp add: poll_loop_failed)
  next
    case False
    with Inr f show ?thesis
      by (cases "disk w = Written") (simp_all add: poll_saved poll_save_failed)
  qed
qed

text \<open>
  Claim C10. \<^verbatim>\<open>poll()\<close> always returns a result and never throws: every throw of its body
  (the fetch, an iteration of the loop, the write of the state file) is inside its
  \<^verbatim>\<open>try\<close>, and \<open>poll\<close> is a total function of the world. Its \<open>errors\<close> is 1 when one of
  these three failed and 0 otherwise, never more; a failure ends the cycle there (a failed
  fetch returns the variables as they started, a failing iteration returns them as the
  iterations before it left them, and neither reaches the write of the state file); and
  the outcomes of the webhook requests change nothing but the request log.
\<close>

theorem C10_poll_returns_one_error_at_most:
  "errors (poll cfg w) =
     (if (\<exists>err. fetchBounties (upstream w) = Inl err) \<or> None \<in> set (fetched w)
         \<or> disk w \<noteq> Written then 1 else 0)
   \<and> errors (poll cfg w) \<le> 1
   \<and> (fetchBounties (upstream w) = Inl e \<longrightarrow> poll cfg w = (start w)\<lparr>errors := 1\<rparr>)
   \<and> (fetchBounties (upstream w) = Inr (pre @ None # post)
        \<longrightarrow> poll cfg w = (snd (poll_loop cfg w (start w) pre))\<lparr>errors := 1\<rparr>)
   \<and> agree_but_posts (poll cfg (w\<lparr>net := n\<rparr>)) (poll cfg w)"
proof -
  have "fetchBounties (upstream w) = Inr (pre @ None # post)
        \<longrightarrow> poll cfg w = (snd (poll_loop cfg w (start w) pre))\<lparr>errors := 1\<rparr>"
    by (simp add: poll_loop_failed poll_loop_stops)
  then show ?thesis
    by (simp add: poll_errors poll_fetch_failed poll_net)
qed

text \<open>An array whose second element is \<^verbatim>\<open>null\<close>: the first bounty is counted, the third is
  never reached, the state file is not written; with every webhook request failing the
  count of errors is the same.\<close>

theorem C10_poll_returns_one_error_at_most_witness:
  "errors (poll example_config
      (example_world Missing
        (Response 200 (Some [Some (example_bounty ''1'' ''open''), None,
                             Some (example_bounty ''2'' ''open'')])))) = 1
   \<and> created (poll example_config
      (example_world Missing
        (Response 200 (Some [Some (example_bounty ''1'' ''open''), None,
                             Some (example_bounty ''2'' ''open'')])))) = 1
   \<and> file_now (poll example_config
      (example_world Missing
        (Response 200 (Some [Some (example_bounty ''1'' ''open''), None,
                             Some (example_bounty ''2'' ''open'')])))) = Missing
   \<and> errors (poll example_config
      ((example_world Missing
        (Response 200 (Some [Some (example_bounty ''1'' ''open''), None,
                             Some (example_bounty ''2'' ''open'')])))\<lparr>net := \<lambda>u p. None\<rparr>)) = 1"
proof -
  let ?w = "example_world Missing
        (Response 200 (Some [Some (example_bounty ''1'' ''open''), None,
                             Some (example_bounty ''2'' ''open'')]))"
  have f: "fetchBounties (upstream ?w)
           = Inr ([Some (example_bounty ''1'' ''open'')] @ None # [Some (example_bounty ''2'' ''open'')])"
    by (simp add: fetchBounties_def example_world_def)
  note c = C10_poll_returns_one_error_at_most [of example_config ?w _
      "[Some (example_bounty ''1'' ''open'')]" "[Some (example_bounty ''2'' ''open'')]"
      "\<lambda>u p. None"]
  from c f have p: "poll example_config ?w
      = (snd (poll_loop example_config ?w (start ?w) [Some (example_bounty ''1'' ''open'')]))\<lparr>errors := 1\<rparr>"
    by blast
  have 1: "errors (poll example_config ?w) = 1" by (simp add: p)
  have 2: "created (poll example_config ?w) = 1"
    unfolding p by (simp add: poll_ev config_ev parse_ev)
  have 3: "file_now (poll example_config ?w) = Missing"
    unfolding p by (simp add: example_world_def)
  from c have "agree_but_posts (poll example_config (?w\<lparr>net := \<lambda>u p. None\<rparr>)) (poll example_config ?w)"
    by blast
  with 1 have 4: "errors (poll example_config (?w\<lparr>net := \<lambda>u p. None\<rparr>)) = 1"
    by (simp add: agree_but_posts_def)
  from 1 2 3 4 show ?thesis by blast
qed

section \<open>Numeric settings\<close>

subsection \<open>\<^verbatim>\<open>parseInt(s, 10)\<close> by the shape of the text\<close>

lemma no_sign_digit [simp]:
  "\<not> is_digit 10 CHR ''+''" "\<not> is_digit 10 CHR ''-''" "\<not> is_digit 10 CHR ''.''"
  "\<not> is_digit 10 CHR ''I''" "\<not> is_digit 10 CHR ''e''" "\<not> is_digit 10 CHR ''E''"
  by (simp_all add: is_digit_def digit_val_def digit_table_def)

lemma takeWhile_all_digits:
  assumes "list_all (is_digit 10) ds" "ends_digits stop rest"
  shows "takeWhile (is_digit 10) (ds @ rest) = ds" "dropWhile (is_digit 10) (ds @ rest) = rest"
proof -
  from assms(1) have a: "\<forall>c \<in> set ds. is_digit 10 c"
    by (simp add: list_all_iff)
  from assms(2) have t: "takeWhile (is_digit 10) rest = []" and d: "dropWhile (is_digit 10) rest = rest"
    by (cases rest; simp add: ends_digits_def)+
  from a t show "takeWhile (is_digit 10) (ds @ rest) = ds"
    by (simp add: takeWhile_append2)
  from a d show "dropWhile (is_digit 10) (ds @ rest) = rest"
    by (simp add: dropWhile_append2)
qed

lemma takeWhile_digits:
  assumes "decimal_digits ds" "ends_digits stop rest"
  shows "takeWhile (is_digit 10) (ds @ rest) = ds" "dropWhile (is_digit 10) (ds @ rest) = rest"
  using assms by (simp_all add: decimal_digits_def takeWhile_all_digits)

lemma digits_Cons: "decimal_digits ds \<Longrightarrow> \<exists>d r. ds = d # r \<and> is_digit 10 d"
  by (cases ds) (simp_all add: decimal_digits_def)

lemma takeWhile_hd: "takeWhile P s \<noteq> [] \<Longrightarrow> \<exists>c r. s = c # r \<and> P c"
  by (cases s) (auto split: if_splits)

text \<open>After the white space and an optional sign, the longest run of digits is read.\<close>

lemma parseInt10_digits:
  assumes s: "skip_space v = sg @ ds @ rest" and sg: "opt_sign sg" and ds: "decimal_digits ds"
    and r: "ends_digits [] rest"
  shows "parseInt10 v = signed sg (of_nat (digits_value 10 ds))"
proof -
  from ds obtain d r' where c: "ds = d # r'" "is_digit 10 d" by (auto dest: digits_Cons)
  then have n: "d \<noteq> CHR ''+''" "d \<noteq> CHR ''-''" by auto
  note tw = takeWhile_digits(1) [OF ds r]
  from ds have ne: "ds \<noteq> []" by (simp add: decimal_digits_def)
  from sg consider "sg = []" | "sg = ''+''" | "sg = ''-''" by (auto simp: opt_sign_def)
  then show ?thesis
  proof cases
    case 1
    with s c have t: "skip_space v = d # (r' @ rest)" by simp
    from tw c have "takeWhile (is_digit 10) (d # (r' @ rest)) = ds" by simp
    with 1 n ne show ?thesis
      by (simp add: parseInt10_def t signed_def del: takeWhile.simps)
  next
    case 2
    with s have t: "skip_space v = CHR ''+'' # (ds @ rest)" by simp
    from 2 tw ne show ?thesis
      by (simp add: parseInt10_def t signed_def)
  next
    case 3
    with s have t: "skip_space v = CHR ''-'' # (ds @ rest)" by simp
    from 3 tw ne show ?thesis
      by (simp add: parseInt10_def t signed_def)
  qed
qed

text \<open>\<^verbatim>\<open>parseInt(s, 10)\<close> is \<open>NaN\<close> exactly when no digit follows the white space and the
  optional sign.\<close>

lemma parseInt10_NaN:
  "(parseInt10 v = NaN)
   = (\<not> (\<exists>sg d rest. skip_space v = sg @ d # rest \<and> opt_sign sg \<and> is_digit 10 d))"
proof
  assume nan: "parseInt10 v = NaN"
  show "\<not> (\<exists>sg d rest. skip_space v = sg @ d # rest \<and> opt_sign sg \<and> is_digit 10 d)"
  proof
    assume "\<exists>sg d rest. skip_space v = sg @ d # rest \<and> opt_sign sg \<and> is_digit 10 d"
    then obtain sg d rest where s: "skip_space v = sg @ d # rest" "opt_sign sg" "is_digit 10 d"
      by blast
    then have n: "d \<noteq> CHR ''+''" "d \<noteq> CHR ''-''" by auto
    from s(2) consider "sg = []" | "sg = ''+''" | "sg = ''-''" by (auto simp: opt_sign_def)
    then have "parseInt10 v \<noteq> NaN"
    proof cases
      case 1
      with s n show ?thesis by (simp add: parseInt10_def)
    next
      case 2
      with s n show ?thesis by (simp add: parseInt10_def)
    next
      case 3
      with s n show ?thesis by (simp add: parseInt10_def)
    qed
    with nan show False by simp
  qed
next
  assume no: "\<not> (\<exists>sg d rest. skip_space v = sg @ d # rest \<and> opt_sign sg \<and> is_digit 10 d)"
  show "parseInt10 v = NaN"
  proof (rule ccontr)
    assume nn: "parseInt10 v \<noteq> NaN"
    show False
    proof (cases "skip_space v")
      case Nil
      with nn show False by (simp add: parseInt10_def)
    next
      case (Cons c r)
      show False
      proof (cases "c = CHR ''-'' \<or> c = CHR ''+''")
        case True
        with nn Cons have "takeWhile (is_digit 10) r \<noteq> []"
          by (auto simp: parseInt10_def split: if_splits)
        then obtain d r' where "r = d # r'" "is_digit 10 d" by (auto dest: takeWhile_hd)
        with Cons True have "skip_space v = [c] @ d # r' \<and> opt_sign [c] \<and> is_digit 10 d"
          by (auto simp: opt_sign_def)
        with no show False by blast
      next
        case False
        with nn Cons have "is_digit 10 c"
          by (auto simp: parseInt10_def split: if_splits)
        with Cons have "skip_space v = [] @ c # r \<and> opt_sign [] \<and> is_digit 10 c"
          by (simp add: opt_sign_def)
        with no show False by blast
      qed
    qed
  qed
qed

lemma js_mul_NaN: "(js_mul a (Num 1000) = NaN) = (a = NaN)"
  by (cases a) (simp_all add: js_mul_def)

subsection \<open>\<^verbatim>\<open>parseFloat(s)\<close> by the shape of the text\<close>

lemma with_exponent_Some: "\<exists>x r'. with_exponent m r = Some (x, r') \<and> x \<noteq> NaN"
  by (auto simp: with_exponent_def split: option.splits)

lemma str_unsigned_decimal_None:
  "(str_unsigned_decimal t = None) = (\<not> begins_decimal t)"
proof (cases "take 8 t = ''Infinity''")
  case True
  then show ?thesis by (simp add: str_unsigned_decimal_def begins_decimal_def)
next
  case inf: False
  show ?thesis
  proof (cases t)
    case Nil
    then show ?thesis by (simp add: str_unsigned_decimal_def begins_decimal_def)
  next
    case (Cons c r)
    show ?thesis
    proof (cases "is_digit 10 c")
      case True
      obtain x r' where "with_exponent (of_nat (digits_value 10 (takeWhile (is_digit 10) t)))
          (dropWhile (is_digit 10) t) = Some (x, r')"
        using with_exponent_Some by blast
      moreover obtain y r'' where "with_exponent
          (of_nat (digits_value 10 (takeWhile (is_digit 10) t))
           + of_nat (digits_value 10 (takeWhile (is_digit 10) (tl (dropWhile (is_digit 10) t))))
             / 10 ^ length (takeWhile (is_digit 10) (tl (dropWhile (is_digit 10) t))))
          (dropWhile (is_digit 10) (tl (dropWhile (is_digit 10) t))) = Some (y, r'')"
        using with_exponent_Some by blast
      moreover from True Cons have "takeWhile (is_digit 10) t \<noteq> []" by simp
      moreover from True Cons have "begins_decimal t" by (simp add: begins_decimal_def)
      ultimately show ?thesis
        using inf by (auto simp: str_unsigned_decimal_def Let_def split: list.splits)
    next
      case nd: False
      with Cons have tw: "takeWhile (is_digit 10) t = []" "dropWhile (is_digit 10) t = c # r"
        by simp_all
      show ?thesis
      proof (cases "c = CHR ''.''")
        case False
        with nd Cons inf have "\<not> begins_decimal t" by (simp add: begins_decimal_def)
        with False inf tw show ?thesis by (simp add: str_unsigned_decimal_def)
      next
        case dot: True
        show ?thesis
        proof (cases "takeWhile (is_digit 10) r = []")
          case True
          then have "r = [] \<or> \<not> is_digit 10 (hd r)" by (cases r) (auto split: if_splits)
          with Cons dot inf have "\<not> begins_decimal t" by (auto simp: begins_decimal_def)
          with True dot inf tw show ?thesis by (simp add: str_unsigned_decimal_def)
        next
          case False
          then obtain d r' where "r = d # r'" "is_digit 10 d" by (auto dest: takeWhile_hd)
          with Cons dot have b: "begins_decimal t" by (simp add: begins_decimal_def)
          obtain y r'' where "with_exponent
              (of_nat (digits_value 10 []) + of_nat (digits_value 10 (takeWhile (is_digit 10) r))
                / 10 ^ length (takeWhile (is_digit 10) r))
              (dropWhile (is_digit 10) r) = Some (y, r'')"
            using with_exponent_Some by blast
          with False dot inf tw b show ?thesis by (simp add: str_unsigned_decimal_def)
        qed
      qed
    qed
  qed
qed

lemma str_unsigned_decimal_not_NaN: "str_unsigned_decimal t \<noteq> Some (NaN, r)"
proof -
  have "\<And>m u. with_exponent m u \<noteq> Some (NaN, r)"
    by (auto simp: with_exponent_def split: option.splits)
  then show ?thesis
    by (auto simp: str_unsigned_decimal_def Let_def split: list.splits if_splits)
qed

lemma str_decimal_not_NaN: "str_decimal t \<noteq> Some (NaN, r)"
  using str_unsigned_decimal_not_NaN
  by (auto simp: str_decimal_def split: list.splits if_splits)

lemma begins_decimal_no_sign [simp]:
  "\<not> begins_decimal []" "\<not> begins_decimal (CHR ''+'' # r)" "\<not> begins_decimal (CHR ''-'' # r)"
  by (simp_all add: begins_decimal_def)

lemma str_decimal_None:
  "(str_decimal s = None) = (\<not> (\<exists>sg t. s = sg @ t \<and> opt_sign sg \<and> begins_decimal t))"
proof (cases s)
  case Nil
  then show ?thesis by (simp add: str_decimal_def)
next
  case (Cons c r)
  have e: "(\<exists>sg t. c # r = sg @ t \<and> opt_sign sg \<and> begins_decimal t)
    = (begins_decimal (c # r) \<or> ((c = CHR ''+'' \<or> c = CHR ''-'') \<and> begins_decimal r))"
  proof
    assume "\<exists>sg t. c # r = sg @ t \<and> opt_sign sg \<and> begins_decimal t"
    then show "begins_decimal (c # r) \<or> ((c = CHR ''+'' \<or> c = CHR ''-'') \<and> begins_decimal r)"
      by (auto simp: opt_sign_def)
  next
    assume "begins_decimal (c # r) \<or> ((c = CHR ''+'' \<or> c = CHR ''-'') \<and> begins_decimal r)"
    then consider "begins_decimal (c # r)" | "c = CHR ''+''" "begins_decimal r"
      | "c = CHR ''-''" "begins_decimal r" by blast
    then show "\<exists>sg t. c # r = sg @ t \<and> opt_sign sg \<and> begins_decimal t"
    proof cases
      case 1
      then have "c # r = [] @ (c # r) \<and> opt_sign [] \<and> begins_decimal (c # r)"
        by (simp add: opt_sign_def)
      then show ?thesis by blast
    next
      case 2
      then have "c # r = ''+'' @ r \<and> opt_sign ''+'' \<and> begins_decimal r"
        by (simp add: opt_sign_def)
      then show ?thesis by blast
    next
      case 3
      then have "c # r = ''-'' @ r \<and> opt_sign ''-'' \<and> begins_decimal r"
        by (simp add: opt_sign_def)
      then show ?thesis by blast
    qed
  qed
  show ?thesis
    unfolding Cons e
    by (auto simp: str_decimal_def str_unsigned_decimal_None)
qed

lemma parseFloat_NaN:
  "(parseFloat v = NaN)
   = (\<not> (\<exists>sg t. skip_space v = sg @ t \<and> opt_sign sg \<and> begins_decimal t))"
proof -
  have "(parseFloat v = NaN) = (str_decimal (skip_space v) = None)"
    using str_decimal_not_NaN [of "skip_space v"]
    by (auto simp: parseFloat_def split: option.splits)
  then show ?thesis by (simp only: str_decimal_None)
qed

lemma exponent_part_None: "ends_digits ''eE'' rest \<Longrightarrow> exponent_part rest = None"
  by (cases rest) (auto simp: exponent_part_def ends_digits_def)

lemma not_Infinity: "decimal_digits ds \<Longrightarrow> take 8 (ds @ rest) \<noteq> ''Infinity''"
  by (cases ds) (auto simp: decimal_digits_def)

lemma str_unsigned_decimal_integer:
  assumes ds: "decimal_digits ds" and r: "ends_digits ''.eE'' rest"
  shows "str_unsigned_decimal (ds @ rest) = Some (to_double (of_nat (digits_value 10 ds)), rest)"
proof -
  note tw = takeWhile_digits [OF ds r]
  from ds have ne: "ds \<noteq> []" by (simp add: decimal_digits_def)
  from r have "ends_digits ''eE'' rest" by (auto simp: ends_digits_def)
  then have x: "exponent_part rest = None" by (rule exponent_part_None)
  from r have d: "\<And>a l. rest = a # l \<Longrightarrow> a \<noteq> CHR ''.''" by (auto simp: ends_digits_def)
  show ?thesis
    using not_Infinity [OF ds, of rest] ne x d
    by (auto simp add: str_unsigned_decimal_def tw with_exponent_def simp del: take_append
        split: list.splits)
qed

lemma str_unsigned_decimal_fraction:
  assumes ds: "decimal_digits ds" and fs: "list_all (is_digit 10) fs"
    and r: "ends_digits ''eE'' rest"
  shows "str_unsigned_decimal (ds @ ''.'' @ fs @ rest)
    = Some (to_double (of_nat (digits_value 10 ds)
              + of_nat (digits_value 10 fs) / 10 ^ length fs), rest)"
proof -
  have "ends_digits [] (''.'' @ fs @ rest)" by (simp add: ends_digits_def)
  note tw = takeWhile_digits [OF ds this]
  note tf = takeWhile_all_digits [OF fs r]
  from ds have ne: "ds \<noteq> []" by (simp add: decimal_digits_def)
  from r have x: "exponent_part rest = None" by (rule exponent_part_None)
  have i: "take 8 (ds @ CHR ''.'' # fs @ rest) \<noteq> ''Infinity''"
    using not_Infinity [OF ds, of "''.'' @ fs @ rest"] by simp
  from tw have tw': "takeWhile (is_digit 10) (ds @ CHR ''.'' # fs @ rest) = ds"
    "dropWhile (is_digit 10) (ds @ CHR ''.'' # fs @ rest) = CHR ''.'' # fs @ rest"
    by simp_all
  show ?thesis
    using i ne x
    by (simp add: str_unsigned_decimal_def tw' tf with_exponent_def del: take_append)
qed

lemma str_decimal_signed:
  assumes sg: "opt_sign sg" and ds: "decimal_digits ds"
    and u: "str_unsigned_decimal (ds @ rest) = Some (to_double q, rest')"
  shows "str_decimal (sg @ ds @ rest) = Some (signed sg q, rest')"
proof -
  from ds obtain d r' where c: "ds = d # r'" "is_digit 10 d" by (auto dest: digits_Cons)
  then have n: "d \<noteq> CHR ''+''" "d \<noteq> CHR ''-''" by auto
  from sg consider "sg = []" | "sg = ''+''" | "sg = ''-''" by (auto simp: opt_sign_def)
  then show ?thesis
  proof cases
    case 1
    with u c n show ?thesis by (simp add: str_decimal_def signed_def)
  next
    case 2
    with u show ?thesis by (simp add: str_decimal_def signed_def)
  next
    case 3
    with u show ?thesis by (simp add: str_decimal_def signed_def)
  qed
qed

lemma parseFloat_integer:
  assumes "skip_space v = sg @ ds @ rest" "opt_sign sg" "decimal_digits ds"
    "ends_digits ''.eE'' rest"
  shows "parseFloat v = signed sg (of_nat (digits_value 10 ds))"
  using str_decimal_signed [OF assms(2,3) str_unsigned_decimal_integer [OF assms(3,4)]] assms(1)
  by (simp add: parseFloat_def)

lemma parseFloat_fraction:
  assumes "skip_space v = sg @ ds @ ''.'' @ fs @ rest" "opt_sign sg" "decimal_digits ds"
    "list_all (is_digit 10) fs" "ends_digits ''eE'' rest"
  shows "parseFloat v
    = signed sg (of_nat (digits_value 10 ds) + of_nat (digits_value 10 fs) / 10 ^ length fs)"
  using str_decimal_signed [OF assms(2,3) str_unsigned_decimal_fraction [OF assms(3,4,5)]] assms(1)
  by (simp add: parseFloat_def)

subsection \<open>The three settings\<close>

lemma skip_space_Nil [simp]: "skip_space [] = []"
  by (simp add: skip_space_def)

lemma env_or_set: "e n = Some v \<Longrightarrow> v \<noteq> [] \<Longrightarrow> env_or e n d = v"
  by (simp add: env_or_def Boolean_def)

lemma env_or_unset: "e n = None \<or> e n = Some [] \<Longrightarrow> env_or e n d = d"
  by (auto simp: env_or_def Boolean_def)

lemma settings:
  "POLL_INTERVAL (load_config lc e) = js_mul (parseInt10 (env_or e ''POLL_INTERVAL'' ''60'')) (Num 1000)"
  "FILTER_MIN_REWARD (load_config lc e) = parseFloat (env_or e ''FILTER_MIN_REWARD'' ''0'')"
  "PORT (load_config lc e) = parseInt10 (env_or e ''PORT'' ''3001'')"
  by (simp_all add: load_config_def)

lemma default_values:
  "js_mul (parseInt10 ''60'') (Num 1000) = Num 60000" "parseFloat ''0'' = Num 0"
  "parseInt10 ''3001'' = Num 3001"
  by (simp_all add: parse_ev js_mul_def)

lemma digits_not_empty:
  "skip_space v = sg @ ds @ rest \<Longrightarrow> decimal_digits ds \<Longrightarrow> v \<noteq> []"
  by (auto simp: decimal_digits_def)

lemmas settings_ev = skip_space_def leading_def white_space_def opt_sign_def decimal_digits_def
  ends_digits_def begins_decimal_def signed_def digits_value_def is_digit_def digit_val_def
  digit_table_def to_double_numeral js_mul_def

text \<open>
  Claim C8 says that every malformed numeric environment value (poll interval, minimum
  reward, port) falls back to the setting's default. The source applies the default with
  \<^verbatim>\<open>||\<close> before parsing, so only an unset or empty variable gets it: \<^verbatim>\<open>abc\<close> as poll
  interval gives \<open>NaN\<close> instead of 60000 ms, \<^verbatim>\<open>80x\<close> as port gives 80 instead of 3001, and
  \<^verbatim>\<open>1.5usd\<close> as minimum reward gives 1.5 instead of 0.
\<close>

theorem C8_counterexample:
  "POLL_INTERVAL (load_config ascii_lower [''POLL_INTERVAL'' \<mapsto> ''abc'']) = NaN
   \<and> PORT (load_config ascii_lower [''PORT'' \<mapsto> ''80x'']) = Num 80
   \<and> FILTER_MIN_REWARD (load_config ascii_lower [''FILTER_MIN_REWARD'' \<mapsto> ''1.5usd''])
       = Num (3 / 2)"
  by (simp add: load_config_def env_or_def Boolean_def parse_ev js_mul_def double_three_halves)

text \<open>
  Claim C8, amended. Each numeric setting is fixed by the text of its variable alone.

  \<^item> Unset or empty, the variable gives the default: 60 s as poll interval (60000 ms), 0 as
    minimum reward, 3001 as port.
  \<^item> For any other text, malformed or not, the poll interval and the port are \<open>NaN\<close>
    exactly when the text, after its leading white space and an optional sign, does not
    begin with a decimal digit. When it does, they are the double nearest to the number
    the digits write up to the first character that is no digit, negated after \<^verbatim>\<open>-\<close>,
    whatever follows; the poll interval is that times 1000.
  \<^item> The minimum reward is \<open>NaN\<close> exactly when the text, after its leading white space and
    an optional sign, begins neither with \<^verbatim>\<open>Infinity\<close>, nor with a digit, nor with a point
    and a digit. Digits followed by nothing, or by a character other than a digit, a point,
    \<^verbatim>\<open>e\<close> and \<^verbatim>\<open>E\<close>, give the double nearest to the number they write; digits, a point
    and further digits if any, followed by nothing or by a character other than a digit,
    \<^verbatim>\<open>e\<close> and \<^verbatim>\<open>E\<close>, give the double nearest to that decimal fraction; each negated
    after \<^verbatim>\<open>-\<close>.

  The number the digits \<open>ds\<close> write is \<open>digits_value 10 ds\<close>, and \<open>signed\<close> rounds it and gives
  it its sign.
\<close>

theorem C8_numeric_settings:
  "(e ''POLL_INTERVAL'' = None \<or> e ''POLL_INTERVAL'' = Some [] \<longrightarrow>
      POLL_INTERVAL (load_config lc e) = Num 60000)
   \<and> (e ''FILTER_MIN_REWARD'' = None \<or> e ''FILTER_MIN_REWARD'' = Some [] \<longrightarrow>
      FILTER_MIN_REWARD (load_config lc e) = Num 0)
   \<and> (e ''PORT'' = None \<or> e ''PORT'' = Some [] \<longrightarrow> PORT (load_config lc e) = Num 3001)
   \<and> (e ''POLL_INTERVAL'' = Some v \<and> v \<noteq> [] \<longrightarrow>
      (POLL_INTERVAL (load_config lc e) = NaN)
      = (\<not> (\<exists>sg d rest. skip_space v = sg @ d # rest \<and> opt_sign sg \<and> is_digit 10 d)))
   \<and> (e ''PORT'' = Some v \<and> v \<noteq> [] \<longrightarrow>
      (PORT (load_config lc e) = NaN)
      = (\<not> (\<exists>sg d rest. skip_space v = sg @ d # rest \<and> opt_sign sg \<and> is_digit 10 d)))
   \<and> (e ''FILTER_MIN_REWARD'' = Some v \<and> v \<noteq> [] \<longrightarrow>
      (FILTER_MIN_REWARD (load_config lc e) = NaN)
      = (\<not> (\<exists>sg t. skip_space v = sg @ t \<and> opt_sign sg \<and> begins_decimal t)))
   \<and> (skip_space v = sg @ ds @ rest \<and> opt_sign sg \<and> decimal_digits ds \<and> ends_digits [] rest \<longrightarrow>
      (e ''POLL_INTERVAL'' = Some v \<longrightarrow>
         POLL_INTERVAL (load_config lc e)
         = js_mul (signed sg (of_nat (digits_value 10 ds))) (Num 1000))
      \<and> (e ''PORT'' = Some v \<longrightarrow>
         PORT (load_config lc e) = signed sg (of_nat (digits_value 10 ds))))
   \<and> (skip_space v = sg @ ds @ rest \<and> opt_sign sg \<and> decimal_digits ds
       \<and> ends_digits ''.eE'' rest \<and> e ''FILTER_MIN_REWARD'' = Some v \<longrightarrow>
      FILTER_MIN_REWARD (load_config lc e) = signed sg (of_nat (digits_value 10 ds)))
   \<and> (skip_space v = sg @ ds @ ''.'' @ fs @ rest \<and> opt_sign sg \<and> decimal_digits ds
       \<and> list_all (is_digit 10) fs \<and> ends_digits ''eE'' rest
       \<and> e ''FILTER_MIN_REWARD'' = Some v \<longrightarrow>
      FILTER_MIN_REWARD (load_config lc e)
      = signed sg (of_nat (digits_value 10 ds) + of_nat (digits_value 10 fs) / 10 ^ length fs))"
proof -
  have 1: "e ''POLL_INTERVAL'' = None \<or> e ''POLL_INTERVAL'' = Some [] \<longrightarrow>
      POLL_INTERVAL (load_config lc e) = Num 60000"
    by (simp add: settings env_or_unset default_values)
  have 2: "e ''FILTER_MIN_REWARD'' = None \<or> e ''FILTER_MIN_REWARD'' = Some [] \<longrightarrow>
      FILTER_MIN_REWARD (load_config lc e) = Num 0"
    by (simp add: settings env_or_unset default_values)
  have 3: "e ''PORT'' = None \<or> e ''PORT'' = Some [] \<longrightarrow> PORT (load_config lc e) = Num 3001"
    by (simp add: settings env_or_unset default_values)
  have 4: "e ''POLL_INTERVAL'' = Some v \<and> v \<noteq> [] \<longrightarrow>
      (POLL_INTERVAL (load_config lc e) = NaN)
      = (\<not> (\<exists>sg d rest. skip_space v = sg @ d # rest \<and> opt_sign sg \<and> is_digit 10 d))"
    by (simp add: settings env_or_set js_mul_NaN parseInt10_NaN)
  have 5: "e ''PORT'' = Some v \<and> v \<noteq> [] \<longrightarrow>
      (PORT (load_config lc e) = NaN)
      = (\<not> (\<exists>sg d rest. skip_space v = sg @ d # rest \<and> opt_sign sg \<and> is_digit 10 d))"
    by (simp add: settings env_or_set parseInt10_NaN)
  have 6: "e ''FILTER_MIN_REWARD'' = Some v \<and> v \<noteq> [] \<longrightarrow>
      (FILTER_MIN_REWARD (load_config lc e) = NaN)
      = (\<not> (\<exists>sg t. skip_space v = sg @ t \<and> opt_sign sg \<and> begins_decimal t))"
    by (simp add: settings env_or_set parseFloat_NaN)
  have 7: "skip_space v = sg @ ds @ rest \<and> opt_sign sg \<and> decimal_digits ds \<and> ends_digits [] rest \<longrightarrow>
      (e ''POLL_INTERVAL'' = Some v \<longrightarrow>
         POLL_INTERVAL (load_config lc e)
         = js_mul (signed sg (of_nat (digits_value 10 ds))) (Num 1000))
      \<and> (e ''PORT'' = Some v \<longrightarrow>
         PORT (load_config lc e) = signed sg (of_nat (digits_value 10 ds)))"
  proof (intro impI conjI)
    assume a: "skip_space v = sg @ ds @ rest \<and> opt_sign sg \<and> decimal_digits ds \<and> ends_digits [] rest"
    then have p: "parseInt10 v = signed sg (of_nat (digits_value 10 ds))"
      by (simp add: parseInt10_digits)
    from a have n: "v \<noteq> []" by (auto dest: digits_not_empty)
    {
      assume "e ''POLL_INTERVAL'' = Some v"
      with n p show "POLL_INTERVAL (load_config lc e)
         = js_mul (signed sg (of_nat (digits_value 10 ds))) (Num 1000)"
        by (simp add: settings env_or_set)
    next
      assume "e ''PORT'' = Some v"
      with n p show "PORT (load_config lc e) = signed sg (of_nat (digits_value 10 ds))"
        by (simp add: settings env_or_set)
    }
  qed
  have 8: "skip_space v = sg @ ds @ rest \<and> opt_sign sg \<and> decimal_digits ds
       \<and> ends_digits ''.eE'' rest \<and> e ''FILTER_MIN_REWARD'' = Some v \<longrightarrow>
      FILTER_MIN_REWARD (load_config lc e) = signed sg (of_nat (digits_value 10 ds))"
  proof
    assume a: "skip_space v = sg @ ds @ rest \<and> opt_sign sg \<and> decimal_digits ds
       \<and> ends_digits ''.eE'' rest \<and> e ''FILTER_MIN_REWARD'' = Some v"
    then have p: "parseFloat v = signed sg (of_nat (digits_value 10 ds))"
      by (simp add: parseFloat_integer)
    from a have n: "v \<noteq> []" by (auto dest: digits_not_empty)
    with a p show "FILTER_MIN_REWARD (load_config lc e) = signed sg (of_nat (digits_value 10 ds))"
      by (simp add: settings env_or_set)
  qed
  have 9: "skip_space v = sg @ ds @ ''.'' @ fs @ rest \<and> opt_sign sg \<and> decimal_digits ds
       \<and> list_all (is_digit 10) fs \<and> ends_digits ''eE'' rest
       \<and> e ''FILTER_MIN_REWARD'' = Some v \<longrightarrow>
      FILTER_MIN_REWARD (load_config lc e)
      = signed sg (of_nat (digits_value 10 ds) + of_nat (digits_value 10 fs) / 10 ^ length fs)"
  proof
    assume a: "skip_space v = sg @ ds @ ''.'' @ fs @ rest \<and> opt_sign sg \<and> decimal_digits ds
       \<and> list_all (is_digit 10) fs \<and> ends_digits ''eE'' rest
       \<and> e ''FILTER_MIN_REWARD'' = Some v"
    then have p: "parseFloat v
      = signed sg (of_nat (digits_value 10 ds) + of_nat (digits_value 10 fs) / 10 ^ length fs)"
      by (simp only: parseFloat_fraction)
    from a have n: "v \<noteq> []" by (auto dest: digits_not_empty [of v sg ds "''.'' @ fs @ rest"])
    with a p show "FILTER_MIN_REWARD (load_config lc e)
      = signed sg (of_nat (digits_value 10 ds) + of_nat (digits_value 10 fs) / 10 ^ length fs)"
      by (simp add: settings env_or_set)
  qed
  from 1 2 3 4 5 6 7 8 9 show ?thesis by (intro conjI)
qed

text \<open>No variable set; an empty minimum reward; the texts \<^verbatim>\<open>soon\<close>, \<^verbatim>\<open>0x50\<close>, \<^verbatim>\<open>usdc\<close>,
  \<^verbatim>\<open>-5s\<close>, \<^verbatim>\<open> 8080x\<close>, \<^verbatim>\<open>+7usd\<close> and \<^verbatim>\<open>2.50 usdc\<close>.\<close>

theorem C8_numeric_settings_witness:
  "POLL_INTERVAL (load_config ascii_lower Map.empty) = Num 60000
   \<and> FILTER_MIN_REWARD (load_config ascii_lower [''FILTER_MIN_REWARD'' \<mapsto> '''']) = Num 0
   \<and> PORT (load_config ascii_lower Map.empty) = Num 3001
   \<and> POLL_INTERVAL (load_config ascii_lower [''POLL_INTERVAL'' \<mapsto> ''soon'']) = NaN
   \<and> PORT (load_config ascii_lower [''PORT'' \<mapsto> ''0x50'']) \<noteq> NaN
   \<and> FILTER_MIN_REWARD (load_config ascii_lower [''FILTER_MIN_REWARD'' \<mapsto> ''usdc'']) = NaN
   \<and> POLL_INTERVAL (load_config ascii_lower [''POLL_INTERVAL'' \<mapsto> ''-5s'']) = Num (- 5000)
   \<and> PORT (load_config ascii_lower [''PORT'' \<mapsto> '' 8080x'']) = Num 8080
   \<and> FILTER_MIN_REWARD (load_config ascii_lower [''FILTER_MIN_REWARD'' \<mapsto> ''+7usd'']) = Num 7
   \<and> FILTER_MIN_REWARD (load_config ascii_lower [''FILTER_MIN_REWARD'' \<mapsto> ''2.50 usdc''])
       = Num (5 / 2)"
proof -
  have 1: "POLL_INTERVAL (load_config ascii_lower Map.empty) = Num 60000"
    using C8_numeric_settings [where e = Map.empty and lc = ascii_lower, THEN conjunct1]
    by simp
  have 2: "FILTER_MIN_REWARD (load_config ascii_lower [''FILTER_MIN_REWARD'' \<mapsto> '''']) = Num 0"
    using C8_numeric_settings [where e = "[''FILTER_MIN_REWARD'' \<mapsto> '''']" and lc = ascii_lower,
        THEN conjunct2, THEN conjunct1]
    by simp
  have 3: "PORT (load_config ascii_lower Map.empty) = Num 3001"
    using C8_numeric_settings [where e = Map.empty and lc = ascii_lower,
        THEN conjunct2, THEN conjunct2, THEN conjunct1]
    by simp
  have "skip_space ''soon'' = ''soon''" "\<not> is_digit 10 CHR ''s''"
    by (simp_all add: settings_ev)
  then have "\<not> (\<exists>sg d rest. skip_space ''soon'' = sg @ d # rest \<and> opt_sign sg \<and> is_digit 10 d)"
    by (auto simp: opt_sign_def)
  then have 4: "POLL_INTERVAL (load_config ascii_lower [''POLL_INTERVAL'' \<mapsto> ''soon'']) = NaN"
    using C8_numeric_settings [where e = "[''POLL_INTERVAL'' \<mapsto> ''soon'']" and lc = ascii_lower
        and v = "''soon''", THEN conjunct2, THEN conjunct2, THEN conjunct2, THEN conjunct1]
    by simp
  have "skip_space ''0x50'' = [] @ CHR ''0'' # ''x50'' \<and> opt_sign [] \<and> is_digit 10 CHR ''0''"
    by (simp add: settings_ev)
  then have "\<exists>sg d rest. skip_space ''0x50'' = sg @ d # rest \<and> opt_sign sg \<and> is_digit 10 d"
    by blast
  then have 5: "PORT (load_config ascii_lower [''PORT'' \<mapsto> ''0x50'']) \<noteq> NaN"
    using C8_numeric_settings [where e = "[''PORT'' \<mapsto> ''0x50'']" and lc = ascii_lower
        and v = "''0x50''", THEN conjunct2, THEN conjunct2, THEN conjunct2, THEN conjunct2,
        THEN conjunct1]
    by simp
  have "skip_space ''usdc'' = ''usdc''" "\<not> is_digit 10 CHR ''u''"
    by (simp_all add: settings_ev)
  then have "\<not> (\<exists>sg t. skip_space ''usdc'' = sg @ t \<and> opt_sign sg \<and> begins_decimal t)"
    by (auto simp: opt_sign_def begins_decimal_def)
  then have 6: "FILTER_MIN_REWARD (load_config ascii_lower [''FILTER_MIN_REWARD'' \<mapsto> ''usdc''])
      = NaN"
    using C8_numeric_settings [where e = "[''FILTER_MIN_REWARD'' \<mapsto> ''usdc'']"
        and lc = ascii_lower and v = "''usdc''", THEN conjunct2, THEN conjunct2, THEN conjunct2,
        THEN conjunct2, THEN conjunct2, THEN conjunct1]
    by simp
  have 7: "POLL_INTERVAL (load_config ascii_lower [''POLL_INTERVAL'' \<mapsto> ''-5s'']) = Num (- 5000)"
    using C8_numeric_settings [where e = "[''POLL_INTERVAL'' \<mapsto> ''-5s'']" and lc = ascii_lower
        and v = "''-5s''" and sg = "''-''" and ds = "''5''" and rest = "''s''",
        THEN conjunct2, THEN conjunct2, THEN conjunct2, THEN conjunct2, THEN conjunct2,
        THEN conjunct2, THEN conjunct1]
    by (simp add: settings_ev)
  have 8: "PORT (load_config ascii_lower [''PORT'' \<mapsto> '' 8080x'']) = Num 8080"
    using C8_numeric_settings [where e = "[''PORT'' \<mapsto> '' 8080x'']" and lc = ascii_lower
        and v = "'' 8080x''" and sg = "[]" and ds = "''8080''" and rest = "''x''",
        THEN conjunct2, THEN conjunct2, THEN conjunct2, THEN conjunct2, THEN conjunct2,
        THEN conjunct2, THEN conjunct1]
    by (simp add: settings_ev)
  have 9: "FILTER_MIN_REWARD (load_config ascii_lower [''FILTER_MIN_REWARD'' \<mapsto> ''+7usd''])
      = Num 7"
    using C8_numeric_settings [where e = "[''FILTER_MIN_REWARD'' \<mapsto> ''+7usd'']"
        and lc = ascii_lower and v = "''+7usd''" and sg = "''+''" and ds = "''7''"
        and rest = "''usd''",
        THEN conjunct2, THEN conjunct2, THEN conjunct2, THEN conjunct2, THEN conjunct2,
        THEN conjunct2, THEN conjunct2, THEN conjunct1]
    by (simp add: settings_ev)
  have 10: "FILTER_MIN_REWARD (load_config ascii_lower [''FILTER_MIN_REWARD'' \<mapsto> ''2.50 usdc''])
      = Num (5 / 2)"
    using C8_numeric_settings [where e = "[''FILTER_MIN_REWARD'' \<mapsto> ''2.50 usdc'']"
        and lc = ascii_lower and v = "''2.50 usdc''" and sg = "[]" and ds = "''2''"
        and fs = "''50''" and rest = "'' usdc''",
        THEN conjunct2, THEN conjunct2, THEN conjunct2, THEN conjunct2, THEN conjunct2,
        THEN conjunct2, THEN conjunct2, THEN conjunct2]
    by (simp add: settings_ev double_three_halves)
  from 1 2 3 4 5 6 7 8 9 10 show ?thesis by (intro conjI)
qed

section \<open>The filter\<close>

text \<open>The configured tags are lower-cased when loaded, so \<^verbatim>\<open>includes\<close> on the lower-cased
  tag of a bounty is membership in the configured set up to letter case, whatever the
  lower-casing of the engine does.\<close>

lemma FILTER_TAGS_load: "FILTER_TAGS (load_config lc e) = map lc (tag_filter lc e)"
  by (simp add: load_config_def tag_filter_def filter_map comp_def)

lemma toLowerCase_load [simp]: "toLowerCase (load_config lc e) = lc"
  by (simp add: load_config_def)

lemma includes_ci:
  "(lc t \<in> set (FILTER_TAGS (load_config lc e))) = (\<exists>f \<in> set (tag_filter lc e). ci_eq lc t f)"
  by (auto simp: FILTER_TAGS_load ci_eq_def)

lemma div_abs_not_NaN: "div_abs (js_abs a) (Num 1000000) = NaN \<Longrightarrow> a = NaN"
  by (cases a) simp_all

lemma usdc_NaN: "(usdc b = NaN) = (Number (reward b) = NaN)"
  by (auto simp: usdc_def js_div_def dest: div_abs_not_NaN)

lemma lt_NaN [simp]: "\<not> lt NaN b"
  by (cases b) simp_all

lemma lt_NaN_right [simp]: "\<not> lt a NaN"
  by (cases a) simp_all

lemma js_lt_NaN [simp]: "\<not> js_lt NaN b"
  by (simp add: js_lt_def)

lemma js_lt_NaN_right [simp]: "\<not> js_lt a NaN"
  by (simp add: js_lt_def)

text \<open>A reward text that is no number passes the reward check, whatever the threshold: the
  source rejects on \<^verbatim>\<open>usdc < FILTER_MIN_REWARD\<close>, which is false for \<open>NaN\<close>.\<close>

lemma reward_not_a_number:
  "Number (reward b) = NaN \<Longrightarrow> \<not> js_lt (js_div (Number (reward b)) (Num 1000000)) T"
  by (simp add: js_div_def)

lemma reward_check:
  assumes "Number (reward b) \<noteq> NaN"
  shows "(\<not> (js_gt T (Num 0) \<and> js_lt (usdc b) T)) = (js_gt T (Num 0) \<longrightarrow> js_ge (usdc b) T)"
proof -
  from assms have "usdc b \<noteq> NaN" by (simp add: usdc_NaN)
  moreover have "js_gt T (Num 0) \<Longrightarrow> T \<noteq> NaN" by (auto simp: js_gt_def)
  ultimately show ?thesis by (auto simp: js_ge_def)
qed

text \<open>
  Claim C5. For a bounty of the data model, whose reward is a numeric string (so that
  \<^verbatim>\<open>Number(bounty.reward)\<close> is a number), \<^verbatim>\<open>matchesFilters\<close> returns true iff both hold:
  the configured tag filter set is empty or the bounty has a tag that is in the set up to
  letter case; and, if the configured threshold is greater than 0, the reward divided by
  1,000,000 is greater than or equal to the threshold. The configuration is the one loaded
  from any environment, with any lower-casing function in the place of \<^verbatim>\<open>toLowerCase\<close>.
\<close>

theorem C5_matchesFilters:
  assumes "Number (reward b) \<noteq> NaN"
  shows "matchesFilters (load_config lc e) b =
     ((tag_filter lc e = []
        \<or> (\<exists>t \<in> set (tags b). \<exists>f \<in> set (tag_filter lc e). ci_eq lc t f))
      \<and> (js_gt (FILTER_MIN_REWARD (load_config lc e)) (Num 0)
           \<longrightarrow> js_ge (usdc b) (FILTER_MIN_REWARD (load_config lc e))))"
proof -
  have "matchesFilters (load_config lc e) b =
     ((FILTER_TAGS (load_config lc e) = []
        \<or> (\<exists>t \<in> set (tags b). lc t \<in> set (FILTER_TAGS (load_config lc e))))
      \<and> \<not> (js_gt (FILTER_MIN_REWARD (load_config lc e)) (Num 0)
            \<and> js_lt (usdc b) (FILTER_MIN_REWARD (load_config lc e))))"
    by (auto simp: matchesFilters_def list_ex_iff usdc_def)
  moreover have "(FILTER_TAGS (load_config lc e) = []) = (tag_filter lc e = [])"
    by (simp add: FILTER_TAGS_load)
  ultimately show ?thesis
    by (simp only: includes_ci reward_check [OF assms])
qed

text \<open>The filter \<^verbatim>\<open>coding, Agents\<close> with the threshold 5: the bounty tagged \<^verbatim>\<open>Coding\<close> with
  the reward 20 passes, the same with the reward 4 does not, nor does one tagged
  \<^verbatim>\<open>Design\<close>.\<close>

theorem C5_matchesFilters_witness:
  "matchesFilters (load_config ascii_lower example_env) (example_bounty ''1'' ''open'')
   \<and> \<not> matchesFilters (load_config ascii_lower example_env)
         ((example_bounty ''1'' ''open'')\<lparr>reward := ''4000000''\<rparr>)
   \<and> \<not> matchesFilters (load_config ascii_lower example_env)
         ((example_bounty ''1'' ''open'')\<lparr>tags := [''Design'']\<rparr>)"
proof -
  have t: "tag_filter ascii_lower example_env = [''coding'', ''Agents'']"
    by (simp add: tag_filter_def example_env_def env_or_def Boolean_def ascii_lower_def
        ascii_lower_char_def case_table_def parse_ev)
  have m: "FILTER_MIN_REWARD (load_config ascii_lower example_env) = Num 5"
    using example_filter(2) by (simp add: example_config_def)
  have n: "Number ''20000000'' = Num 20000000" "Number ''4000000'' = Num 4000000"
    by (simp_all add: parse_ev)
  have 1: "matchesFilters (load_config ascii_lower example_env) (example_bounty ''1'' ''open'')"
    using C5_matchesFilters [of "example_bounty ''1'' ''open''" ascii_lower example_env]
    by (simp add: t m n ci_eq_def ascii_lower_def ascii_lower_char_def case_table_def
        usdc_def js_div_def js_ge_def js_gt_def js_lt_def to_double_numeral)
  have 2: "\<not> matchesFilters (load_config ascii_lower example_env)
         ((example_bounty ''1'' ''open'')\<lparr>reward := ''4000000''\<rparr>)"
    using C5_matchesFilters [of "(example_bounty ''1'' ''open'')\<lparr>reward := ''4000000''\<rparr>"
        ascii_lower example_env]
    by (simp add: t m n ci_eq_def ascii_lower_def ascii_lower_char_def case_table_def
        usdc_def js_div_def js_ge_def js_gt_def js_lt_def to_double_numeral)
  have 3: "\<not> matchesFilters (load_config ascii_lower example_env)
         ((example_bounty ''1'' ''open'')\<lparr>tags := [''Design'']\<rparr>)"
    using C5_matchesFilters [of "(example_bounty ''1'' ''open'')\<lparr>tags := [''Design'']\<rparr>"
        ascii_lower example_env]
    by (simp add: t m n ci_eq_def ascii_lower_def ascii_lower_char_def case_table_def
        usdc_def js_div_def js_ge_def js_gt_def js_lt_def to_double_numeral)
  from 1 2 3 show ?thesis by blast
qed

text \<open>The threshold text \<^verbatim>\<open>5.0000000000000001\<close> is the double 5, so a reward of 5000000
  micro-units passes.\<close>

lemma threshold_is_rounded:
  "FILTER_MIN_REWARD (load_config lc [''FILTER_MIN_REWARD'' \<mapsto> ''5.0000000000000001'']) = Num 5"
  by (simp add: load_config_def env_or_def Boolean_def parse_ev double_just_above_five)

lemma reward_at_rounded_threshold:
  "matchesFilters (load_config ascii_lower [''FILTER_MIN_REWARD'' \<mapsto> ''5.0000000000000001''])
     ((example_bounty ''1'' ''open'')\<lparr>reward := ''5000000''\<rparr>)"
  by (simp add: matchesFilters_def threshold_is_rounded)
     (simp add: load_config_def env_or_def Boolean_def parse_ev js_div_def js_gt_def js_lt_def
        ascii_lower_def)

section \<open>The creation proxy\<close>

text \<open>
  Claim C7 says that \<^verbatim>\<open>POST /bounties\<close> mirrors the upstream's status and body whenever
  the upstream returns a response, and answers with the fixed 502 exactly when the
  upstream call is a transport failure. In the source the whole branch is one \<^verbatim>\<open>try\<close>,
  with \<^verbatim>\<open>await res.json()\<close> inside it: an upstream that answers 500 with a body that is not
  JSON gets the fixed 502 too, and its status is not mirrored.
\<close>

theorem C7_counterexample:
  "fst (handle example_config (example_world Missing NoResponse) (\<lambda>txt. Response 500 None)
         \<lparr>pathname = ''/bounties'', http_method = ''POST'', text_body = Some ''{}''\<rparr>)
   = \<lparr>code = 502, body = JObject [(''error'', JString ''Failed to proxy bounty creation'')]\<rparr>"
  by (simp add: handle_def proxy_def proxy_failure_def)

text \<open>
  Claim C7, amended. For every \<^verbatim>\<open>POST\<close> to \<^verbatim>\<open>/bounties\<close>: when the upstream returns a
  response whose body decodes as JSON, with a status a response with a body can carry
  (200 to 599, not 204, 205 or 304), the handler answers with that status and that JSON
  value; when the upstream call is a transport failure, or the upstream's body does not
  decode as JSON, or the request's own text cannot be read, it answers with the fixed 502
  response. It runs no poll.
\<close>

theorem C7_proxy:
  assumes "pathname req = ''/bounties''" "http_method req = ''POST''"
  shows "(text_body req = Some txt \<and> create txt = Response st (Some data)
            \<and> 200 \<le> st \<and> st \<le> 599 \<and> st \<notin> {204, 205, 304}
          \<longrightarrow> fst (handle cfg w create req) = \<lparr>code = st, body = data\<rparr>)
       \<and> (text_body req = Some txt \<and> (create txt = NoResponse \<or> create txt = Response st None)
          \<longrightarrow> fst (handle cfg w create req) = proxy_failure)
       \<and> (text_body req = None \<longrightarrow> fst (handle cfg w create req) = proxy_failure)
       \<and> snd (handle cfg w create req) = None"
  using assms by (auto simp: handle_def proxy_def Response_json_def)

text \<open>An upstream 201 and an upstream 422, each with a JSON body, are mirrored; a transport
  failure gives the fixed 502.\<close>

theorem C7_proxy_witness:
  "fst (handle example_config (example_world Missing NoResponse)
          (\<lambda>txt. Response 201 (Some (JObject [(''id'', JString ''50'')])))
          \<lparr>pathname = ''/bounties'', http_method = ''POST'', text_body = Some ''{}''\<rparr>)
     = \<lparr>code = 201, body = JObject [(''id'', JString ''50'')]\<rparr>
   \<and> fst (handle example_config (example_world Missing NoResponse)
          (\<lambda>txt. Response 422 (Some (JObject [(''error'', JString ''title required'')])))
          \<lparr>pathname = ''/bounties'', http_method = ''POST'', text_body = Some ''{}''\<rparr>)
     = \<lparr>code = 422, body = JObject [(''error'', JString ''title required'')]\<rparr>
   \<and> fst (handle example_config (example_world Missing NoResponse) (\<lambda>txt. NoResponse)
          \<lparr>pathname = ''/bounties'', http_method = ''POST'', text_body = Some ''{}''\<rparr>)
     = proxy_failure"
proof -
  let ?req = "\<lparr>pathname = ''/bounties'', http_method = ''POST'', text_body = Some ''{}''\<rparr>"
  have r: "pathname ?req = ''/bounties''" "http_method ?req = ''POST''" by simp_all
  have 1: "fst (handle example_config (example_world Missing NoResponse)
          (\<lambda>txt. Response 201 (Some (JObject [(''id'', JString ''50'')]))) ?req)
     = \<lparr>code = 201, body = JObject [(''id'', JString ''50'')]\<rparr>"
    using C7_proxy [OF r, of "''{}''" "\<lambda>txt. Response 201 (Some (JObject [(''id'', JString ''50'')]))"
        201 "JObject [(''id'', JString ''50'')]"]
    by simp
  have 2: "fst (handle example_config (example_world Missing NoResponse)
          (\<lambda>txt. Response 422 (Some (JObject [(''error'', JString ''title required'')]))) ?req)
     = \<lparr>code = 422, body = JObject [(''error'', JString ''title required'')]\<rparr>"
    using C7_proxy [OF r, of "''{}''"
        "\<lambda>txt. Response 422 (Some (JObject [(''error'', JString ''title required'')]))"
        422 "JObject [(''error'', JString ''title required'')]"]
    by simp
  have 3: "fst (handle example_config (example_world Missing NoResponse) (\<lambda>txt. NoResponse) ?req)
     = proxy_failure"
    using C7_proxy [OF r, of "''{}''" "\<lambda>txt. NoResponse"]
    by simp
  from 1 2 3 show ?thesis by blast
qed

section \<open>The branches of the loop body\<close>

lemma js_get_Own [simp]: "(js_get m k = Own v) = (m k = Some v)"
  by (auto simp: js_get_def split: option.splits)

lemma js_get_Some: "m k = Some v \<Longrightarrow> js_get m k = Own v"
  by simp

lemma js_get_absent:
  "m k = None \<Longrightarrow> k \<notin> set Object_prototype_names \<Longrightarrow> js_get m k = Undefined"
  by (simp add: js_get_def)

lemma js_set_same: "k \<noteq> ''__proto__'' \<or> m k \<noteq> None \<Longrightarrow> js_set m k v k = Some v"
  by (auto simp: js_set_def)

lemma fireWebhook_none: "WEBHOOK_URLS cfg = [] \<Longrightarrow> fireWebhook cfg nw p = []"
  by (simp add: fireWebhook_def)

text \<open>The three branches of the loop body for a bounty that passes the filter.\<close>

lemma loop_body_new:
  assumes "matchesFilters cfg b" "falsy (js_get (bounties (state r)) (bounty_id b))"
  shows "created (loop_body cfg w r b) = created r + 1"
    and "changed (loop_body cfg w r b) = changed r"
    and "posts (loop_body cfg w r b) =
           posts r @ fireWebhook cfg (net w)
             \<lparr>event = Own bounty_created, bounty = b, timestamp = clock w (ticks r)\<rparr>"
    and "bounties (state (loop_body cfg w r b))
           = js_set (bounties (state r)) (bounty_id b) (status b)"
  using assms
  by (simp_all add: loop_body_def Let_def dispatch_def set_status_def fireWebhook_none)

lemma loop_body_changed:
  assumes "matchesFilters cfg b" "\<not> falsy (js_get (bounties (state r)) (bounty_id b))"
    "js_get (bounties (state r)) (bounty_id b) \<noteq> Own (status b)"
  shows "created (loop_body cfg w r b) = created r"
    and "changed (loop_body cfg w r b) = changed r + 1"
    and "posts (loop_body cfg w r b) =
           posts r @ (if js_get STATUS_TO_EVENT (status b) = Undefined then []
                      else fireWebhook cfg (net w)
                             \<lparr>event = js_get STATUS_TO_EVENT (status b), bounty = b,
                              timestamp = clock w (ticks r)\<rparr>)"
    and "bounties (state (loop_body cfg w r b))
           = js_set (bounties (state r)) (bounty_id b) (status b)"
  using assms
  by (simp_all add: loop_body_def Let_def dispatch_def set_status_def fireWebhook_none)

lemma loop_body_same:
  assumes "bounties (state r) (bounty_id b) = Some (status b)" "status b \<noteq> []"
  shows "loop_body cfg w r b = r"
  using assms by (simp add: loop_body_def Let_def js_get_Some)

text \<open>The run in which the loop reaches a bounty is the run the bounties before it left, and
  the loop goes on from what the loop body makes of it.\<close>

lemma poll_loop_reaches:
  "poll_loop cfg w r (map Some pre @ Some b # post)
     = poll_loop cfg w (loop_body cfg w (snd (poll_loop cfg w r (map Some pre))) b) post"
  by (induction pre arbitrary: r) simp_all

text \<open>By \<open>poll_loop_frame\<close>, the entry that run holds under the bounty's identifier is the
  loaded one unless a bounty before it, passing the filter, has the same identifier.\<close>

text \<open>The fixed table.\<close>

lemma STATUS_TO_EVENT_table:
  "(STATUS_TO_EVENT s = Some e) =
     ((s, e) \<in> {(''open'', bounty_created), (''claimed'', bounty_claimed),
                 (''submitted'', bounty_submitted), (''completed'', bounty_completed),
                 (''payment_failed'', bounty_payment_failed)})"
  by (auto simp: STATUS_TO_EVENT_def)

section \<open>A bounty seen for the first time\<close>

lemma fireWebhook_loop_map:
  "fireWebhook_loop nw p us = map (\<lambda>u. \<lparr>url = u, payload = p, outcome = nw u p\<rparr>) us"
  by (induction us) simp_all

lemma fireWebhook_map:
  "fireWebhook cfg nw p = map (\<lambda>u. \<lparr>url = u, payload = p, outcome = nw u p\<rparr>) (WEBHOOK_URLS cfg)"
  by (simp add: fireWebhook_def fireWebhook_loop_map)

lemma example_world_fields [simp]:
  "state_file (example_world f up) = f" "upstream (example_world f up) = up"
  "net (example_world f up) = (\<lambda>u p. Some 200)"
  "clock (example_world f up) = (\<lambda>n. ''2026-02-06T00:00:00.000Z'')"
  "disk (example_world f up) = Written"
  by (simp_all add: example_world_def)

lemma loadState_simps [simp]:
  "loadState (Stored s) = s" "bounties (loadState Missing) = Map.empty"
  "bounties (loadState Corrupt) = Map.empty"
  by (simp_all add: loadState_def)

lemma example_state_bounties [simp]: "bounties (example_state i s) = [i \<mapsto> s]"
  by (simp add: example_state_def)

text \<open>
  Claim C2 says that every bounty that passes the filter and whose identifier is absent
  from the loaded state record is recorded, dispatched as \<^verbatim>\<open>bounty.created\<close> and counted in
  \<open>created\<close>, whatever its status. The loop reads the record it is updating, so of two
  fetched bounties with one identifier, absent from the loaded record, the second is
  compared with the first: it counts as changed and is dispatched under its own status.
  And the read \<^verbatim>\<open>state.bounties[bounty.id]\<close> finds \<^verbatim>\<open>Object.prototype\<close>'s properties: a
  bounty whose identifier is \<^verbatim>\<open>constructor\<close>, first seen with status \<^verbatim>\<open>completed\<close>, counts as
  changed and is dispatched as \<^verbatim>\<open>bounty.completed\<close>.
\<close>

theorem C2_counterexample:
  "bounties (loadState Missing) ''1'' = None
   \<and> created (poll example_config (example_world Missing
        (Response 200 (Some [Some (example_bounty ''1'' ''open''),
                             Some (example_bounty ''1'' ''completed'')])))) = 1
   \<and> map (\<lambda>p. event (payload p)) (posts (poll example_config (example_world Missing
        (Response 200 (Some [Some (example_bounty ''1'' ''open''),
                             Some (example_bounty ''1'' ''completed'')])))))
       = [Own bounty_created, Own bounty_completed]
   \<and> bounties (loadState Missing) ''constructor'' = None
   \<and> created (poll example_config (example_world Missing
        (Response 200 (Some [Some (example_bounty ''constructor'' ''completed'')])))) = 0
   \<and> changed (poll example_config (example_world Missing
        (Response 200 (Some [Some (example_bounty ''constructor'' ''completed'')])))) = 1
   \<and> map (\<lambda>p. event (payload p)) (posts (poll example_config (example_world Missing
        (Response 200 (Some [Some (example_bounty ''constructor'' ''completed'')])))))
       = [Own bounty_completed]"
  by (simp add: poll_ev config_ev parse_ev)

text \<open>
  Claim C2, amended. Let a bounty pass the filter, and let its identifier have no entry in
  the state record when the loop reaches it (the loaded record, updated by the bounties
  before it) and not be the name of a property of \<^verbatim>\<open>Object.prototype\<close>. Then the loop body
  records its status under its identifier, sends one \<^verbatim>\<open>bounty.created\<close> request carrying the
  bounty to each configured destination (none when there is none), and adds one to
  \<open>created\<close> and nothing to \<open>changed\<close>, whatever the status.
\<close>

theorem C2_first_seen_is_created:
  assumes "matchesFilters cfg b" "bounties (state r) (bounty_id b) = None"
    "bounty_id b \<notin> set Object_prototype_names"
  shows "bounties (state (loop_body cfg w r b)) (bounty_id b) = Some (status b)
     \<and> posts (loop_body cfg w r b) =
         posts r @ map (\<lambda>u. \<lparr>url = u,
                              payload = \<lparr>event = Own bounty_created, bounty = b,
                                         timestamp = clock w (ticks r)\<rparr>,
                              outcome = net w u \<lparr>event = Own bounty_created, bounty = b,
                                                 timestamp = clock w (ticks r)\<rparr>\<rparr>)
                       (WEBHOOK_URLS cfg)
     \<and> created (loop_body cfg w r b) = created r + 1
     \<and> changed (loop_body cfg w r b) = changed r"
proof -
  from assms(2,3) have u: "js_get (bounties (state r)) (bounty_id b) = Undefined"
    by (rule js_get_absent)
  then have f: "falsy (js_get (bounties (state r)) (bounty_id b))" by simp
  from assms(3) have "bounty_id b \<noteq> ''__proto__''"
    by (auto simp: Object_prototype_names_def)
  then have "js_set (bounties (state r)) (bounty_id b) (status b) (bounty_id b) = Some (status b)"
    by (simp add: js_set_same)
  with loop_body_new [OF assms(1) f, of w] show ?thesis
    by (simp add: fireWebhook_map)
qed

text \<open>A bounty first seen with status \<^verbatim>\<open>completed\<close>.\<close>

theorem C2_first_seen_is_created_witness:
  "bounties (state (loop_body example_config (example_world Missing NoResponse)
       (start (example_world Missing NoResponse)) (example_bounty ''42'' ''completed''))) ''42''
     = Some ''completed''
   \<and> map (\<lambda>p. (url p, event (payload p)))
        (posts (loop_body example_config (example_world Missing NoResponse)
          (start (example_world Missing NoResponse)) (example_bounty ''42'' ''completed'')))
     = [(''https://hooks.example/a'', Own bounty_created)]
   \<and> created (loop_body example_config (example_world Missing NoResponse)
       (start (example_world Missing NoResponse)) (example_bounty ''42'' ''completed'')) = 1
   \<and> changed (loop_body example_config (example_world Missing NoResponse)
       (start (example_world Missing NoResponse)) (example_bounty ''42'' ''completed'')) = 0"
proof -
  have i: "bounty_id (example_bounty ''42'' ''completed'') = ''42''"
    "status (example_bounty ''42'' ''completed'') = ''completed''"
    by (simp_all add: example_bounty_def)
  have n: "bounty_id (example_bounty ''42'' ''completed'') \<notin> set Object_prototype_names"
    by (simp add: i Object_prototype_names_def)
  have a: "bounties (state (start (example_world Missing NoResponse)))
             (bounty_id (example_bounty ''42'' ''completed'')) = None"
    by simp
  from C2_first_seen_is_created [OF example_bounty_matches a n, of "example_world Missing NoResponse"]
  show ?thesis
    by (simp add: i example_filter)
qed

section \<open>A bounty whose status changed\<close>

lemma STATUS_TO_EVENT_get:
  "s \<notin> set Object_prototype_names
   \<Longrightarrow> js_get STATUS_TO_EVENT s
       = (case STATUS_TO_EVENT s of None \<Rightarrow> Undefined | Some e \<Rightarrow> Own e)"
  by (simp add: js_get_def split: option.splits)

text \<open>
  Claim C3 says that for every bounty that passes the filter, whose identifier is present
  in the loaded state record with a status other than the fetched one, the poll dispatches
  the event the table gives for the new status iff there is one and a destination is
  configured, stores the new status and adds one to \<open>changed\<close>. A poll stores the status
  of a bounty as fetched, the empty string included, and \<^verbatim>\<open>!prevStatus\<close> takes a stored
  empty string for no entry: with \<^verbatim>\<open>""\<close> stored and \<^verbatim>\<open>claimed\<close> fetched, the bounty counts as
  created and is dispatched as \<^verbatim>\<open>bounty.created\<close>. And the read
  \<^verbatim>\<open>STATUS_TO_EVENT[bounty.status]\<close> finds \<^verbatim>\<open>Object.prototype\<close>'s properties: the status
  \<^verbatim>\<open>toString\<close>, which the table does not map, is dispatched, with a function as its event.
\<close>

theorem C3_counterexample:
  "file_now (poll example_config
      (example_world Missing (Response 200 (Some [Some (example_bounty ''1'' '''')]))))
     = Stored (example_state ''1'' '''')
   \<and> created (poll example_config
        (example_world (Stored (example_state ''1'' ''''))
           (Response 200 (Some [Some (example_bounty ''1'' ''claimed'')])))) = 1
   \<and> changed (poll example_config
        (example_world (Stored (example_state ''1'' ''''))
           (Response 200 (Some [Some (example_bounty ''1'' ''claimed'')])))) = 0
   \<and> map (\<lambda>p. event (payload p)) (posts (poll example_config
        (example_world (Stored (example_state ''1'' ''''))
           (Response 200 (Some [Some (example_bounty ''1'' ''claimed'')])))))
       = [Own bounty_created]
   \<and> STATUS_TO_EVENT ''toString'' = None
   \<and> map (\<lambda>p. event (payload p)) (posts (poll example_config
        (example_world (Stored (example_state ''1'' ''open''))
           (Response 200 (Some [Some (example_bounty ''1'' ''toString'')])))))
       = [Inherited]"
  by (simp add: poll_ev config_ev parse_ev)

text \<open>
  Claim C3, amended. Let a bounty pass the filter, and let the state record, when the loop
  reaches the bounty, hold under its identifier a non-empty status other than the fetched
  one, the fetched status not being the name of a property of \<^verbatim>\<open>Object.prototype\<close>. Then
  the loop body sends the event the fixed table gives for the new status to each
  configured destination, so it sends something iff the table maps the status and a
  destination is configured; and in every case it stores the new status and adds one to
  \<open>changed\<close> and nothing to \<open>created\<close>. The table is the five pairs of the source.
\<close>

theorem C3_status_changed:
  assumes "matchesFilters cfg b" "bounties (state r) (bounty_id b) = Some s"
    "s \<noteq> status b" "s \<noteq> []" "status b \<notin> set Object_prototype_names"
  shows "posts (loop_body cfg w r b) =
           posts r @ (case STATUS_TO_EVENT (status b) of
                        None \<Rightarrow> []
                      | Some e \<Rightarrow>
                          map (\<lambda>u. \<lparr>url = u,
                                    payload = \<lparr>event = Own e, bounty = b,
                                               timestamp = clock w (ticks r)\<rparr>,
                                    outcome = net w u \<lparr>event = Own e, bounty = b,
                                                       timestamp = clock w (ticks r)\<rparr>\<rparr>)
                              (WEBHOOK_URLS cfg))
     \<and> (posts (loop_body cfg w r b) \<noteq> posts r)
         = (STATUS_TO_EVENT (status b) \<noteq> None \<and> WEBHOOK_URLS cfg \<noteq> [])
     \<and> bounties (state (loop_body cfg w r b)) (bounty_id b) = Some (status b)
     \<and> changed (loop_body cfg w r b) = changed r + 1
     \<and> created (loop_body cfg w r b) = created r
     \<and> (STATUS_TO_EVENT (status b) = Some e) =
         ((status b, e) \<in> {(''open'', bounty_created), (''claimed'', bounty_claimed),
                            (''submitted'', bounty_submitted), (''completed'', bounty_completed),
                            (''payment_failed'', bounty_payment_failed)})"
proof -
  from assms(3,4) have c: "\<not> falsy (js_get (bounties (state r)) (bounty_id b))"
    "js_get (bounties (state r)) (bounty_id b) \<noteq> Own (status b)"
    by (simp_all add: js_get_Some [of "bounties (state r)" "bounty_id b" s, OF assms(2)])
  note l = loop_body_changed [OF assms(1) c, of w]
  from assms(2) have st: "js_set (bounties (state r)) (bounty_id b) (status b) (bounty_id b)
      = Some (status b)"
    by (simp add: js_set_same)
  have p: "posts (loop_body cfg w r b) =
           posts r @ (case STATUS_TO_EVENT (status b) of
                        None \<Rightarrow> []
                      | Some e \<Rightarrow>
                          map (\<lambda>u. \<lparr>url = u,
                                    payload = \<lparr>event = Own e, bounty = b,
                                               timestamp = clock w (ticks r)\<rparr>,
                                    outcome = net w u \<lparr>event = Own e, bounty = b,
                                                       timestamp = clock w (ticks r)\<rparr>\<rparr>)
                              (WEBHOOK_URLS cfg))"
    by (simp add: l(3) STATUS_TO_EVENT_get [OF assms(5)] fireWebhook_map split: option.splits)
  then have q: "(posts (loop_body cfg w r b) \<noteq> posts r)
         = (STATUS_TO_EVENT (status b) \<noteq> None \<and> WEBHOOK_URLS cfg \<noteq> [])"
    by (simp split: option.splits)
  from p q l(1,2) l(4) st show ?thesis
    by (simp add: STATUS_TO_EVENT_table)
qed

text \<open>A bounty stored as \<^verbatim>\<open>claimed\<close> and fetched as \<^verbatim>\<open>completed\<close>: one \<^verbatim>\<open>bounty.completed\<close>
  request, and the stored status becomes \<^verbatim>\<open>completed\<close>.\<close>

theorem C3_status_changed_witness:
  "map (\<lambda>p. (url p, event (payload p)))
      (posts (loop_body example_config (example_world Missing NoResponse)
         (start (example_world (Stored (example_state ''1'' ''claimed'')) NoResponse))
         (example_bounty ''1'' ''completed'')))
     = [(''https://hooks.example/a'', Own bounty_completed)]
   \<and> bounties (state (loop_body example_config (example_world Missing NoResponse)
         (start (example_world (Stored (example_state ''1'' ''claimed'')) NoResponse))
         (example_bounty ''1'' ''completed''))) ''1'' = Some ''completed''
   \<and> changed (loop_body example_config (example_world Missing NoResponse)
         (start (example_world (Stored (example_state ''1'' ''claimed'')) NoResponse))
         (example_bounty ''1'' ''completed'')) = 1
   \<and> created (loop_body example_config (example_world Missing NoResponse)
         (start (example_world (Stored (example_state ''1'' ''claimed'')) NoResponse))
         (example_bounty ''1'' ''completed'')) = 0"
proof -
  let ?b = "example_bounty ''1'' ''completed''"
  let ?r = "start (example_world (Stored (example_state ''1'' ''claimed'')) NoResponse)"
  have i: "bounty_id ?b = ''1''" "status ?b = ''completed''"
    by (simp_all add: example_bounty_def)
  have a: "bounties (state ?r) (bounty_id ?b) = Some ''claimed''"
    by (simp add: i)
  have n: "''claimed'' \<noteq> status ?b" "''claimed'' \<noteq> []" "status ?b \<notin> set Object_prototype_names"
    by (simp_all add: i Object_prototype_names_def)
  have t: "STATUS_TO_EVENT ''completed'' = Some bounty_completed"
    by (simp add: STATUS_TO_EVENT_def)
  from C3_status_changed [OF example_bounty_matches a n, of "example_world Missing NoResponse"]
  show ?thesis
    by (simp add: i t example_filter)
qed

section \<open>A bounty with the empty status\<close>

text \<open>
  Claim C9 says that every bounty with the empty status that passes the filter is
  classified as new by each poll, even when a previous poll wrote an entry for its
  identifier. That holds when the entry written is the empty string. When the previous
  poll saw the bounty as \<^verbatim>\<open>open\<close> and stored that, the bounty with the empty status counts
  as changed, and nothing is dispatched. And a bounty whose identifier is \<^verbatim>\<open>__proto__\<close>
  is never new: the read finds the prototype object, which is truthy.
\<close>

theorem C9_counterexample:
  "file_now (poll example_config
      (example_world Missing (Response 200 (Some [Some (example_bounty ''1'' ''open'')]))))
     = Stored (example_state ''1'' ''open'')
   \<and> created (poll example_config
        (example_world (Stored (example_state ''1'' ''open''))
           (Response 200 (Some [Some (example_bounty ''1'' '''')])))) = 0
   \<and> changed (poll example_config
        (example_world (Stored (example_state ''1'' ''open''))
           (Response 200 (Some [Some (example_bounty ''1'' '''')])))) = 1
   \<and> posts (poll example_config
        (example_world (Stored (example_state ''1'' ''open''))
           (Response 200 (Some [Some (example_bounty ''1'' '''')])))) = []
   \<and> created (poll example_config
        (example_world Missing (Response 200 (Some [Some (example_bounty ''__proto__'' '''')])))) = 0
   \<and> changed (poll example_config
        (example_world Missing (Response 200 (Some [Some (example_bounty ''__proto__'' '''')])))) = 1"
  by (simp add: poll_ev config_ev parse_ev)

text \<open>
  Claim C9, amended. Let a bounty with the empty status pass the filter, and let the state
  record hold the empty string under its identifier, or hold nothing there (the
  identifier not being the name of a property of \<^verbatim>\<open>Object.prototype\<close>). Then the loop body
  classifies it as new: it adds one to \<open>created\<close> and nothing to \<open>changed\<close>, sends
  \<^verbatim>\<open>bounty.created\<close> to each configured destination, and stores the empty string under
  the identifier, so that the next poll finds the bounty in the same situation.
\<close>

theorem C9_empty_status_is_new_again:
  assumes "matchesFilters cfg b" "status b = []"
    "bounties (state r) (bounty_id b) = Some []
     \<or> (bounties (state r) (bounty_id b) = None \<and> bounty_id b \<notin> set Object_prototype_names)"
  shows "created (loop_body cfg w r b) = created r + 1
     \<and> changed (loop_body cfg w r b) = changed r
     \<and> posts (loop_body cfg w r b) =
         posts r @ map (\<lambda>u. \<lparr>url = u,
                              payload = \<lparr>event = Own bounty_created, bounty = b,
                                         timestamp = clock w (ticks r)\<rparr>,
                              outcome = net w u \<lparr>event = Own bounty_created, bounty = b,
                                                 timestamp = clock w (ticks r)\<rparr>\<rparr>)
                       (WEBHOOK_URLS cfg)
     \<and> bounties (state (loop_body cfg w r b)) (bounty_id b) = Some []"
proof -
  from assms(3) have f: "falsy (js_get (bounties (state r)) (bounty_id b))"
  proof
    assume "bounties (state r) (bounty_id b) = Some []"
    then have "js_get (bounties (state r)) (bounty_id b) = Own []" by simp
    then show ?thesis by (simp only: falsy.simps)
  next
    assume "bounties (state r) (bounty_id b) = None \<and> bounty_id b \<notin> set Object_prototype_names"
    then have "js_get (bounties (state r)) (bounty_id b) = Undefined"
      by (simp add: js_get_absent)
    then show ?thesis by (simp only: falsy.simps)
  qed
  from assms(3) have "bounty_id b \<noteq> ''__proto__'' \<or> bounties (state r) (bounty_id b) \<noteq> None"
    by (auto simp: Object_prototype_names_def)
  then have "js_set (bounties (state r)) (bounty_id b) (status b) (bounty_id b) = Some (status b)"
    by (rule js_set_same)
  with loop_body_new [OF assms(1) f, of w] assms(2) show ?thesis
    by (simp add: fireWebhook_map)
qed

text \<open>A bounty with the empty status whose entry, written by a previous poll, is the empty
  string.\<close>

theorem C9_empty_status_is_new_again_witness:
  "created (loop_body example_config (example_world Missing NoResponse)
       (start (example_world (Stored (example_state ''1'' '''')) NoResponse))
       (example_bounty ''1'' '''')) = 1
   \<and> changed (loop_body example_config (example_world Missing NoResponse)
       (start (example_world (Stored (example_state ''1'' '''')) NoResponse))
       (example_bounty ''1'' '''')) = 0
   \<and> map (\<lambda>p. (url p, event (payload p)))
        (posts (loop_body example_config (example_world Missing NoResponse)
          (start (example_world (Stored (example_state ''1'' '''')) NoResponse))
          (example_bounty ''1'' '''')))
     = [(''https://hooks.example/a'', Own bounty_created)]
   \<and> bounties (state (loop_body example_config (example_world Missing NoResponse)
       (start (example_world (Stored (example_state ''1'' '''')) NoResponse))
       (example_bounty ''1'' ''''))) ''1'' = Some ''''"
proof -
  let ?b = "example_bounty ''1'' ''''"
  let ?r = "start (example_world (Stored (example_state ''1'' '''')) NoResponse)"
  have i: "bounty_id ?b = ''1''" "status ?b = ''''"
    by (simp_all add: example_bounty_def)
  have a: "bounties (state ?r) (bounty_id ?b) = Some []
     \<or> (bounties (state ?r) (bounty_id ?b) = None \<and> bounty_id ?b \<notin> set Object_prototype_names)"
    by (simp add: i)
  from C9_empty_status_is_new_again [OF example_bounty_matches i(2) a,
      of "example_world Missing NoResponse"]
  show ?thesis
    by (simp add: i example_filter)
qed

section \<open>Polling an unchanged list twice\<close>

text \<open>An entry survives an iteration when the bounty of that iteration, if it passes the
  filter and has the entry's identifier, has the entry's status.\<close>

lemma loop_body_keeps:
  assumes "bounties (state r) k = Some s"
    "matchesFilters cfg b \<and> bounty_id b = k \<longrightarrow> status b = s"
  shows "bounties (state (loop_body cfg w r b)) k = Some s"
proof (cases "matchesFilters cfg b \<and> bounty_id b = k")
  case False
  then have "k \<noteq> bounty_id b \<or> \<not> matchesFilters cfg b" by auto
  with assms(1) show ?thesis by (simp add: loop_body_frame)
next
  case True
  with assms have e: "bounties (state r) (bounty_id b) = Some (status b)" by simp
  show ?thesis
  proof (cases "status b = []")
    case False
    with e have "loop_body cfg w r b = r" by (rule loop_body_same)
    with assms(1) show ?thesis by simp
  next
    case True
    from e True have "falsy (js_get (bounties (state r)) (bounty_id b))"
      by (simp add: js_get_Some [of "bounties (state r)" "bounty_id b" "status b"])
    with True \<open>matchesFilters cfg b \<and> bounty_id b = k\<close>
    have "bounties (state (loop_body cfg w r b)) = js_set (bounties (state r)) k (status b)"
      by (simp add: loop_body_new(4))
    with assms True \<open>matchesFilters cfg b \<and> bounty_id b = k\<close> show ?thesis
      by (simp add: js_set_same)
  qed
qed

lemma poll_loop_keeps:
  "bounties (state r) k = Some s
   \<Longrightarrow> \<forall>b \<in> set L. matchesFilters cfg b \<and> bounty_id b = k \<longrightarrow> status b = s
   \<Longrightarrow> bounties (state (snd (poll_loop cfg w r (map Some L)))) k = Some s"
proof (induction L arbitrary: r)
  case Nil
  then show ?case by simp
next
  case (Cons b L)
  from Cons.prems have "bounties (state (loop_body cfg w r b)) k = Some s"
    by (intro loop_body_keeps) simp_all
  with Cons show ?case by simp
qed

text \<open>After its iteration, a bounty that passes the filter is stored with its status,
  unless its status or its identifier is one the store does not keep.\<close>

lemma loop_body_stores:
  assumes "matchesFilters cfg b" "status b \<noteq> []" "bounty_id b \<noteq> ''__proto__''"
  shows "bounties (state (loop_body cfg w r b)) (bounty_id b) = Some (status b)"
proof (cases "falsy (js_get (bounties (state r)) (bounty_id b))")
  case True
  with assms show ?thesis
    by (simp add: loop_body_new(4) js_set_same)
next
  case False
  show ?thesis
  proof (cases "js_get (bounties (state r)) (bounty_id b) = Own (status b)")
    case True
    then have e: "bounties (state r) (bounty_id b) = Some (status b)" by simp
    from e assms(2) have "loop_body cfg w r b = r" by (rule loop_body_same)
    with e show ?thesis by simp
  next
    case n: False
    with assms False show ?thesis
      by (simp add: loop_body_changed(4) js_set_same)
  qed
qed

lemma poll_loop_stores:
  assumes "\<forall>b \<in> set L. matchesFilters cfg b \<longrightarrow> status b \<noteq> [] \<and> bounty_id b \<noteq> ''__proto__''"
    "\<forall>b \<in> set L. \<forall>b' \<in> set L.
        matchesFilters cfg b \<and> matchesFilters cfg b' \<and> bounty_id b = bounty_id b'
        \<longrightarrow> status b = status b'"
    "b \<in> set L" "matchesFilters cfg b"
  shows "bounties (state (snd (poll_loop cfg w r (map Some L)))) (bounty_id b) = Some (status b)"
  using assms
proof (induction L arbitrary: r)
  case Nil
  from Nil.prems(3) show ?case by simp
next
  case (Cons a L)
  have mem: "a \<in> set (a # L)" "set L \<subseteq> set (a # L)" by auto
  show ?case
  proof (cases "matchesFilters cfg a \<and> bounty_id a = bounty_id b")
    case True
    from Cons.prems(2) mem(1) Cons.prems(3,4) True have s: "status a = status b"
      by blast
    from True have ma: "matchesFilters cfg a" and ida: "bounty_id a = bounty_id b"
      by simp_all
    from Cons.prems(1) mem(1) ma have na: "status a \<noteq> []" "bounty_id a \<noteq> ''__proto__''"
      by blast+
    from ma na have "bounties (state (loop_body cfg w r a)) (bounty_id a) = Some (status a)"
      by (rule loop_body_stores)
    then have k: "bounties (state (loop_body cfg w r a)) (bounty_id b) = Some (status b)"
      by (simp only: ida s)
    from Cons.prems(2) mem(2) Cons.prems(3,4)
    have "\<forall>c \<in> set L. matchesFilters cfg c \<and> bounty_id c = bounty_id b \<longrightarrow> status c = status b"
      by blast
    with k have "bounties (state (snd (poll_loop cfg w (loop_body cfg w r a) (map Some L))))
        (bounty_id b) = Some (status b)"
      by (rule poll_loop_keeps)
    then show ?thesis by simp
  next
    case False
    with Cons.prems(3,4) have m: "b \<in> set L" by auto
    from Cons.prems(1) mem(2)
    have st: "\<forall>b \<in> set L. matchesFilters cfg b \<longrightarrow> status b \<noteq> [] \<and> bounty_id b \<noteq> ''__proto__''"
      by blast
    from Cons.prems(2) mem(2)
    have id: "\<forall>b \<in> set L. \<forall>b' \<in> set L.
        matchesFilters cfg b \<and> matchesFilters cfg b' \<and> bounty_id b = bounty_id b'
        \<longrightarrow> status b = status b'"
      by blast
    from Cons.IH [OF st id m Cons.prems(4)] show ?thesis by simp
  qed
qed

text \<open>When every fetched bounty that passes the filter is stored with its non-empty status,
  the loop does nothing.\<close>

lemma poll_loop_quiet:
  "\<forall>b \<in> set L. matchesFilters cfg b
      \<longrightarrow> bounties (state r) (bounty_id b) = Some (status b) \<and> status b \<noteq> []
   \<Longrightarrow> poll_loop cfg w r (map Some L) = (False, r)"
proof (induction L)
  case Nil
  then show ?case by simp
next
  case (Cons b L)
  have "loop_body cfg w r b = r"
  proof (cases "matchesFilters cfg b")
    case True
    with Cons.prems show ?thesis by (simp add: loop_body_same)
  next
    case False
    then show ?thesis by (rule loop_body_skip)
  qed
  with Cons show ?case by simp
qed

text \<open>
  Claim C1 says that for every list of bounties, a second poll of the same list, from the
  state the first poll saved, returns \<open>created = 0\<close> and \<open>changed = 0\<close>. It does not for a
  bounty with the empty status, which is new to every poll; nor for two bounties with one
  identifier and two statuses, each of which the second poll finds changed against the
  other; nor for a bounty whose identifier is \<^verbatim>\<open>__proto__\<close>, whose status is never stored.
\<close>

theorem C1_counterexample:
  "created (poll example_config
      (example_world
         (file_now (poll example_config
            (example_world Missing (Response 200 (Some [Some (example_bounty ''1'' '''')])))))
         (Response 200 (Some [Some (example_bounty ''1'' '''')])))) = 1
   \<and> changed (poll example_config
      (example_world
         (file_now (poll example_config
            (example_world Missing
               (Response 200 (Some [Some (example_bounty ''1'' ''open''),
                                    Some (example_bounty ''1'' ''claimed'')])))))
         (Response 200 (Some [Some (example_bounty ''1'' ''open''),
                              Some (example_bounty ''1'' ''claimed'')])))) = 2
   \<and> changed (poll example_config
      (example_world
         (file_now (poll example_config
            (example_world Missing
               (Response 200 (Some [Some (example_bounty ''__proto__'' ''open'')])))))
         (Response 200 (Some [Some (example_bounty ''__proto__'' ''open'')])))) = 1"
  by (simp add: poll_ev config_ev parse_ev)

text \<open>
  Claim C1, amended. Let the fetched bounties that pass the filter have non-empty statuses,
  equal statuses where they have equal identifiers, and no identifier \<^verbatim>\<open>__proto__\<close>. If a
  poll fetches the list and saves its state, then a second poll that fetches the same list
  and starts from the state file the first one left returns \<open>created = 0\<close> and
  \<open>changed = 0\<close> and makes no webhook request (its \<open>errors\<close> is 0 unless its own write of
  the state file fails).
\<close>

theorem C1_second_poll_is_quiet:
  assumes first: "upstream w = Response st (Some (map Some L))" "ok st" "disk w = Written"
    and second: "upstream w' = Response st' (Some (map Some L))" "ok st'"
      "state_file w' = file_now (poll cfg w)"
    and statuses: "\<forall>b \<in> set L. matchesFilters cfg b
        \<longrightarrow> status b \<noteq> [] \<and> bounty_id b \<noteq> ''__proto__''"
    and ids: "\<forall>b \<in> set L. \<forall>b' \<in> set L.
        matchesFilters cfg b \<and> matchesFilters cfg b' \<and> bounty_id b = bounty_id b'
        \<longrightarrow> status b = status b'"
  shows "created (poll cfg w') = 0 \<and> changed (poll cfg w') = 0 \<and> posts (poll cfg w') = []
     \<and> errors (poll cfg w') = (if disk w' = Written then 0 else 1)"
proof -
  let ?r1 = "snd (poll_loop cfg w (start w) (map Some L))"
  from first have f: "fetchBounties (upstream w) = Inr (map Some L)"
    by (simp add: fetchBounties_def ok_def)
  from second have f': "fetchBounties (upstream w') = Inr (map Some L)"
    by (simp add: fetchBounties_def ok_def)
  have n: "None \<notin> set (map Some L)" by auto
  from poll_saved [OF f n first(3)] have "file_now (poll cfg w) = Stored (state ?r1)"
    by simp
  with second(3) have s: "state (start w') = state ?r1"
    by (simp add: loadState_def)
  have "\<forall>b \<in> set L. matchesFilters cfg b
      \<longrightarrow> bounties (state (start w')) (bounty_id b) = Some (status b) \<and> status b \<noteq> []"
    using poll_loop_stores [OF statuses ids] statuses unfolding s by blast
  then have q: "poll_loop cfg w' (start w') (map Some L) = (False, start w')"
    by (rule poll_loop_quiet)
  show ?thesis
  proof (cases "disk w' = Written")
    case True
    with poll_saved [OF f' n True] q show ?thesis by simp
  next
    case False
    with poll_save_failed [OF f' n False] q show ?thesis by simp
  qed
qed

text \<open>Two bounties, polled twice from a missing state file.\<close>

theorem C1_second_poll_is_quiet_witness:
  "created (poll example_config
      (example_world
         (file_now (poll example_config
            (example_world Missing
               (Response 200 (Some (map Some [example_bounty ''1'' ''open'',
                                             example_bounty ''2'' ''claimed'']))))))
         (Response 200 (Some (map Some [example_bounty ''1'' ''open'',
                                       example_bounty ''2'' ''claimed'']))))) = 0
   \<and> changed (poll example_config
      (example_world
         (file_now (poll example_config
            (example_world Missing
               (Response 200 (Some (map Some [example_bounty ''1'' ''open'',
                                             example_bounty ''2'' ''claimed'']))))))
         (Response 200 (Some (map Some [example_bounty ''1'' ''open'',
                                       example_bounty ''2'' ''claimed'']))))) = 0
   \<and> posts (poll example_config
      (example_world
         (file_now (poll example_config
            (example_world Missing
               (Response 200 (Some (map Some [example_bounty ''1'' ''open'',
                                             example_bounty ''2'' ''claimed'']))))))
         (Response 200 (Some (map Some [example_bounty ''1'' ''open'',
                                       example_bounty ''2'' ''claimed'']))))) = []"
proof -
  let ?L = "[example_bounty ''1'' ''open'', example_bounty ''2'' ''claimed'']"
  let ?w = "example_world Missing (Response 200 (Some (map Some ?L)))"
  let ?w' = "example_world (file_now (poll example_config ?w)) (Response 200 (Some (map Some ?L)))"
  have 1: "upstream ?w = Response 200 (Some (map Some ?L))" "ok 200" "disk ?w = Written"
    by (simp_all add: ok_def)
  have 2: "upstream ?w' = Response 200 (Some (map Some ?L))"
    "state_file ?w' = file_now (poll example_config ?w)"
    by simp_all
  have 3: "\<forall>b \<in> set ?L. matchesFilters example_config b
        \<longrightarrow> status b \<noteq> [] \<and> bounty_id b \<noteq> ''__proto__''"
    by (simp add: example_bounty_def)
  have 4: "\<forall>b \<in> set ?L. \<forall>b' \<in> set ?L.
        matchesFilters example_config b \<and> matchesFilters example_config b'
          \<and> bounty_id b = bounty_id b'
        \<longrightarrow> status b = status b'"
    by (simp add: example_bounty_def)
  from C1_second_poll_is_quiet [OF 1 2(1) 1(2) 2(2) 3 4] show ?thesis
    by simp
qed

end
